theory Spec2Isabelle
  imports Main
begin

section \<open>Host-language AST: the declarations the checker queries\<close>

text \<open>
  The host AST belongs to an external library; the checker only reads it. Declarations
  refer to each other cyclically (a struct field may mention the struct), so a
  declaration is named by a handle and the record \<open>host\<close> below resolves handles.
\<close>

datatype DataLocation = Storage | Memory | CallData | Default

datatype FunctionVisibility = External | Public | Internal | Private | DefaultVisibility

datatype FunctionStateMutability = Pure | View | Constant | Payable | NonPayable

datatype StateVariableVisibility = SVPublic | SVInternal | SVPrivate | SVDefault

text \<open>Handle of a struct, enum or contract definition (its AST node id).\<close>

datatype udef = StructDef nat | EnumDef nat | ContractDef nat

text \<open>
  What \<open>astV.vScope\<close> is tested for in \<open>getVarLocation\<close>: a contract, a function
  (whose visibility is then read), or anything else.
\<close>

datatype var_scope = InContract | InFunction FunctionVisibility | InOther

text \<open>
  The length of an array type name: a number literal (with the value \<open>parseInt\<close> reads
  off it) or any other expression.
\<close>

datatype array_length = NumberLiteral nat | OtherLength

text \<open>
  \<open>UserDefinedTypeName\<close> carries \<open>vReferencedDeclaration\<close>: \<open>None\<close> stands for a
  declaration that is neither struct, enum nor contract. \<open>OtherTypeName\<close> is any type
  name class the checker does not know.
\<close>

datatype TypeName =
    ElementaryTypeName string string
  | ArrayTypeName TypeName "array_length option"
  | UserDefinedTypeName "udef option"
  | FunctionTypeName "VariableDeclaration list" "VariableDeclaration list"
      FunctionVisibility FunctionStateMutability
  | Mapping TypeName TypeName
  | OtherTypeName
and VariableDeclaration =
    VariableDeclaration (v_name: string) (vType: "TypeName option")
      (storageLocation: DataLocation) (vScope: var_scope)
      (parentIsStatement: bool) (v_visibility: StateVariableVisibility)

record FunctionDefinition =
  f_id :: nat
  f_name :: string
  vParameters :: "VariableDeclaration list"
  vReturnParameters :: "VariableDeclaration list"
  f_visibility :: FunctionVisibility
  f_stateMutability :: FunctionStateMutability

text \<open>\<open>d_scope\<close> is the name of the enclosing contract when \<open>vScope\<close> is a contract.\<close>

record StructDefinition =
  s_name :: string
  s_scope :: "string option"
  s_vMembers :: "VariableDeclaration list"

record EnumDefinition =
  e_name :: string
  e_scope :: "string option"
  e_vMembers :: "string list"

record UsingForDirective =
  vTypeName :: "TypeName option"
  vLibraryName :: nat

record ContractDefinition =
  c_name :: string
  c_scope :: "string option"
  vLinearizedBaseContracts :: "nat list"
  vStateVariables :: "VariableDeclaration list"
  vStructs :: "nat list"
  vEnums :: "nat list"
  vUsingForDirectives :: "UsingForDirective list"
  vFunctions :: "FunctionDefinition list"

record SourceUnit =
  u_vStructs :: "nat list"
  u_vEnums :: "nat list"
  u_vContracts :: "nat list"

section \<open>Semantic types\<close>

text \<open>
  \<open>SPointer\<close> holds its location as an option: \<open>None\<close> is the JavaScript
  \<open>undefined\<close> that the unchecked read \<open>(argTs[0] as SPointer).location\<close> of
  \<open>tcFunctionCall\<close> yields on a type that is no pointer. \<open>SFunctionSetType\<close> is an
  object that \<open>tcFunctionCall\<close> mutates in place while the cache and other nodes share
  it, so the type holds a reference and the object lives in the checker state.
\<close>

datatype stype =
    SBoolType
  | SAddressType bool
  | SIntType nat bool
  | SIntLiteralType
  | SFixedBytes nat
  | SBytes
  | SString
  | SStringLiteralType
  | SArrayType stype "nat option"
  | SMappingType stype stype
  | SUserDefinedType string "udef option"
  | STupleType "stype list"
  | SPointer stype "DataLocation option"
  | SFunctionType "stype list" "stype list" FunctionVisibility FunctionStateMutability
  | SBuiltinStructType string "(string \<times> stype) list"
  | SBuiltinTypeNameType stype
  | SUserDefinedTypeNameType udef
  | SFunctionSetType nat

section \<open>Annotation-language AST\<close>

text \<open>
  Every node carries the \<open>id\<close> its constructor draws from the global counter, so two
  nodes are the same object exactly when they are equal as values. A let node keeps the
  names of its binding identifiers. A type used as an expression is a node too.
\<close>

datatype snode =
    SNumber nat int
  | SBooleanLiteral nat bool
  | SStringLiteral nat string
  | SHexLiteral nat string
  | SAddressLiteral nat string
  | SId nat string
  | SResult nat
  | SUnaryOperation nat string snode
  | SBinaryOperation nat snode string snode
  | SConditional nat snode snode snode
  | SIndexAccess nat snode snode
  | SMemberAccess nat snode string
  | SLet nat "string list" snode snode
  | SFunctionCall nat snode "snode list"
  | STypeNode nat stype

section \<open>Diagnostics\<close>

text \<open>
  The ten user diagnostics, and \<open>InternalError\<close> for a plain \<open>Error\<close> or a failed
  \<open>assert\<close>. Messages of the user diagnostics are not modelled; the nodes and types
  they carry are.
\<close>

datatype error =
    SNoField snode string
  | SWrongType snode stype
  | SUnknownId snode
  | SMissingSolidityType snode
  | SExprCountMismatch snode
  | SUnresolvedFun snode
  | SFunNoReturn snode
  | SArgumentMismatch snode
  | IncompatibleTypes snode stype snode stype
  | SInvalidKeyword snode
  | InternalError string

definition ebind :: "error + 'a \<Rightarrow> ('a \<Rightarrow> error + 'b) \<Rightarrow> error + 'b" where
  "ebind m f = (case m of Inl e \<Rightarrow> Inl e | Inr x \<Rightarrow> f x)"

section \<open>Strings and the elementary-type regular expressions\<close>

fun strip_prefix :: "string \<Rightarrow> string \<Rightarrow> string option" where
  "strip_prefix [] s = Some s"
| "strip_prefix (p # ps) [] = None"
| "strip_prefix (p # ps) (c # cs) = (if p = c then strip_prefix ps cs else None)"

definition is_digit :: "char \<Rightarrow> bool" where
  "is_digit c = (c \<in> set ''0123456789'')"

definition is_space :: "char \<Rightarrow> bool" where
  "is_space c = (c \<in> set [CHR '' '', CHR 0x09, CHR 0x0A, CHR 0x0B, CHR 0x0C, CHR 0x0D])"

text \<open>\<open>String.prototype.trim\<close>, on the ASCII white space.\<close>

definition trim :: "string \<Rightarrow> string" where
  "trim s = rev (dropWhile is_space (rev (dropWhile is_space s)))"

text \<open>
  \<open>parseInt\<close> on a string of decimal digits, the only strings the call sites pass
  (each is a \<open>[0-9]\<close> capture group that was tested to be non-empty).
\<close>

definition parseInt :: "string \<Rightarrow> nat" where
  "parseInt s = foldl (\<lambda>n c. 10 * n + (of_char c - 48)) 0 s"

text \<open>
  Each matcher returns the capture groups of a successful match, \<open>None\<close> for no match.
  A group is a \<open>string option\<close>: an optional group that took no part in the match is
  \<open>undefined\<close> in JavaScript, here \<open>None\<close>; a group that matched the empty string is
  \<open>Some []\<close>.
\<close>

text \<open>\<open>/^address *(payable)?$/\<close>\<close>

definition addressRE :: "string \<Rightarrow> string option list option" where
  "addressRE name =
     (case strip_prefix ''address'' name of
        None \<Rightarrow> None
      | Some r \<Rightarrow>
          (let r' = dropWhile (\<lambda>c. c = CHR '' '') r in
           if r' = [] then Some [None]
           else if r' = ''payable'' then Some [Some ''payable'']
           else None))"

text \<open>\<open>/^int_const *([0-9]*)$/\<close>\<close>

definition intLiteralRE :: "string \<Rightarrow> string option list option" where
  "intLiteralRE name =
     (case strip_prefix ''int_const'' name of
        None \<Rightarrow> None
      | Some r \<Rightarrow>
          (let r' = dropWhile (\<lambda>c. c = CHR '' '') r in
           if list_all is_digit r' then Some [Some r'] else None))"

text \<open>\<open>/^(u?)int([0-9]*)$/\<close>\<close>

definition intTypeRE :: "string \<Rightarrow> string option list option" where
  "intTypeRE name =
     (case strip_prefix ''uint'' name of
        Some r \<Rightarrow> (if list_all is_digit r then Some [Some ''u'', Some r] else None)
      | None \<Rightarrow>
          (case strip_prefix ''int'' name of
             Some r \<Rightarrow> (if list_all is_digit r then Some [Some [], Some r] else None)
           | None \<Rightarrow> None))"

text \<open>\<open>/^bytes([0-9]+)$/\<close>\<close>

definition bytesRE :: "string \<Rightarrow> string option list option" where
  "bytesRE name =
     (case strip_prefix ''bytes'' name of
        None \<Rightarrow> None
      | Some r \<Rightarrow> (if r \<noteq> [] \<and> list_all is_digit r then Some [Some r] else None))"

section \<open>Host type ingestion\<close>

text \<open>
  The part of the host AST that handles resolve to, and what lives outside the
  checker: \<open>resolveByName\<close> of the AST library (the functions named \<open>name\<close> that
  a contract and its bases define), the structural equality \<open>eq\<close> of the utility
  module, and the two builtin registries.
\<close>

record host =
  structDef :: "nat \<Rightarrow> StructDefinition"
  enumDef :: "nat \<Rightarrow> EnumDefinition"
  contractDef :: "nat \<Rightarrow> ContractDefinition"
  resolveByName :: "nat \<Rightarrow> string \<Rightarrow> FunctionDefinition list"
  eq :: "stype \<Rightarrow> stype \<Rightarrow> bool"
  BuiltinSymbols :: "string \<Rightarrow> stype option"
  BuiltinAddressMembers :: "string \<Rightarrow> stype option"

definition def_name :: "host \<Rightarrow> udef \<Rightarrow> string" where
  "def_name H d =
     (case d of
        StructDef i \<Rightarrow> s_name (structDef H i)
      | EnumDef i \<Rightarrow> e_name (enumDef H i)
      | ContractDef i \<Rightarrow> c_name (contractDef H i))"

definition def_scope :: "host \<Rightarrow> udef \<Rightarrow> string option" where
  "def_scope H d =
     (case d of
        StructDef i \<Rightarrow> s_scope (structDef H i)
      | EnumDef i \<Rightarrow> e_scope (enumDef H i)
      | ContractDef i \<Rightarrow> c_scope (contractDef H i))"

definition getUserDefinedTypeFQName :: "host \<Rightarrow> udef \<Rightarrow> string" where
  "getUserDefinedTypeFQName H d =
     (case def_scope H d of
        Some scope_name \<Rightarrow> scope_name @ ''.'' @ def_name H d
      | None \<Rightarrow> def_name H d)"

definition getVarLocation ::
  "VariableDeclaration \<Rightarrow> DataLocation option \<Rightarrow> error + DataLocation" where
  "getVarLocation astV baseLoc =
     (if storageLocation astV \<noteq> Default then Inr (storageLocation astV)
      else if vScope astV = InContract then Inr Storage
      else case baseLoc of
        Some l \<Rightarrow> Inr l
      | None \<Rightarrow>
          (case vScope astV of
             InFunction vis \<Rightarrow>
               (if parentIsStatement astV
                then Inl (InternalError ''Scribble shouldn't look at local vars'')
                else Inr (if vis = External then CallData else Memory))
           | _ \<Rightarrow> Inl (InternalError ''NYI variables with scope'')))"

fun specializeType :: "stype \<Rightarrow> DataLocation \<Rightarrow> error + stype" where
  "specializeType (SPointer t l) toLocation =
     Inl (InternalError ''Unexpected pointer type in concretization'')"
| "specializeType (STupleType ts) toLocation =
     Inl (InternalError ''Unexpected tuple type in concretization'')"
| "specializeType SBytes toLocation = Inr (SPointer SBytes (Some toLocation))"
| "specializeType SString toLocation = Inr (SPointer SString (Some toLocation))"
| "specializeType (SArrayType elementT sz) toLocation =
     ebind (specializeType elementT toLocation) (\<lambda>concreteElT.
       Inr (SPointer (SArrayType concreteElT sz) (Some toLocation)))"
| "specializeType (SUserDefinedType name def) toLocation =
     (case def of
        None \<Rightarrow> Inl (InternalError ''Can't concretize user defined type with no corresponding definition'')
      | Some (ContractDef i) \<Rightarrow> Inr (SPointer (SUserDefinedType name def) (Some Storage))
      | Some (StructDef i) \<Rightarrow> Inr (SPointer (SUserDefinedType name def) (Some toLocation))
      | Some (EnumDef i) \<Rightarrow> Inr (SUserDefinedType name def))"
| "specializeType (SMappingType keyType valueType) toLocation =
     ebind (specializeType keyType Memory) (\<lambda>concreteKeyT.
     ebind (specializeType valueType Storage) (\<lambda>concreteValueT.
       Inr (SPointer (SMappingType concreteKeyT concreteValueT) (Some Storage))))"
| "specializeType t toLocation = Inr t"

fun despecializeType :: "stype \<Rightarrow> stype" where
  "despecializeType (SPointer to l) = to"
| "despecializeType (SArrayType elementT sz) = SArrayType (despecializeType elementT) sz"
| "despecializeType (SMappingType keyType valueType) =
     SMappingType (despecializeType keyType) (despecializeType valueType)"
| "despecializeType t = t"

text \<open>The elementary branch of \<open>astTypeNameToSType\<close>, on the name and \<open>stateMutability\<close>.\<close>

definition elementaryToSType :: "string \<Rightarrow> string \<Rightarrow> error + stype" where
  "elementaryToSType rawName stateMutability =
     (let name = trim rawName in
      if name = ''bool'' then Inr SBoolType
      else if addressRE name \<noteq> None then Inr (SAddressType (stateMutability = ''payable''))
      else if intLiteralRE name \<noteq> None then Inr SIntLiteralType
      else case intTypeRE name of
        Some m \<Rightarrow>
          Inr (SIntType (if m ! 1 = Some [] then 256 else parseInt (the (m ! 1)))
            (m ! 0 \<noteq> Some ''u''))
      | None \<Rightarrow>
          (let m = bytesRE name in
           if name = ''byte'' \<or> m \<noteq> None
           then Inr (SFixedBytes (case m of Some g \<Rightarrow> parseInt (the (g ! 0)) | None \<Rightarrow> 1))
           else if name = ''bytes'' \<or> name = ''string''
           then Inr (if name = ''bytes'' then SBytes else SString)
           else Inl (InternalError ''NYI converting elementary AST Type'')))"

fun astTypeNameToSType :: "host \<Rightarrow> TypeName \<Rightarrow> error + stype"
  and astVarToSType :: "host \<Rightarrow> VariableDeclaration \<Rightarrow> DataLocation option \<Rightarrow> error + stype"
  and astVarsToSTypes :: "host \<Rightarrow> VariableDeclaration list \<Rightarrow> error + stype list"
where
  "astTypeNameToSType H (ElementaryTypeName name stateMutability) =
     elementaryToSType name stateMutability"
| "astTypeNameToSType H (ArrayTypeName vBaseType vLength) =
     ebind (astTypeNameToSType H vBaseType) (\<lambda>elT.
       case vLength of
         None \<Rightarrow> Inr (SArrayType elT None)
       | Some (NumberLiteral n) \<Rightarrow> Inr (SArrayType elT (Some n))
       | Some OtherLength \<Rightarrow> Inl (InternalError ''NYI non-literal array type sizes''))"
| "astTypeNameToSType H (UserDefinedTypeName vReferencedDeclaration) =
     (case vReferencedDeclaration of
        Some def \<Rightarrow> Inr (SUserDefinedType (getUserDefinedTypeFQName H def) (Some def))
      | None \<Rightarrow> Inl (InternalError ''NYI typecheckin of user-defined type''))"
| "astTypeNameToSType H (FunctionTypeName vParameterTypes vReturnParameterTypes visibility stateMutability) =
     ebind (astVarsToSTypes H vParameterTypes) (\<lambda>parameters.
     ebind (astVarsToSTypes H vReturnParameterTypes) (\<lambda>returns.
       Inr (SFunctionType parameters returns visibility stateMutability)))"
| "astTypeNameToSType H (Mapping vKeyType vValueType) =
     ebind (astTypeNameToSType H vKeyType) (\<lambda>keyT.
     ebind (astTypeNameToSType H vValueType) (\<lambda>valueT.
       Inr (SMappingType keyT valueT)))"
| "astTypeNameToSType H OtherTypeName = Inl (InternalError ''NYI converting AST Type to SType'')"
| "astVarToSType H (VariableDeclaration n vT loc sc par vis) baseLoc =
     (case vT of
        None \<Rightarrow> Inl (InternalError ''Unsupported variable declaration without a type'')
      | Some t \<Rightarrow>
          ebind (astTypeNameToSType H t) (\<lambda>type.
          ebind (getVarLocation (VariableDeclaration n vT loc sc par vis) baseLoc) (\<lambda>l.
            specializeType type l)))"
| "astVarsToSTypes H [] = Inr []"
| "astVarsToSTypes H (v # vs) =
     ebind (astVarToSType H v None) (\<lambda>t.
     ebind (astVarsToSTypes H vs) (\<lambda>ts. Inr (t # ts)))"

section \<open>Typing context, type cache and checker state\<close>

datatype let_node = LetNode (l_id: nat) (l_lhs: "string list") (l_rhs: snode) (l_in: snode)

definition let_snode :: "let_node \<Rightarrow> snode" where
  "let_snode l = SLet (l_id l) (l_lhs l) (l_rhs l) (l_in l)"

datatype sscope =
    SourceUnits "SourceUnit list"
  | ContractScope nat
  | FunctionScope FunctionDefinition
  | LetScope let_node

type_synonym STypingCtx = "sscope list"

datatype VarDefSite = VarDef VariableDeclaration | LetDef let_node nat

datatype def_site = DefVar VarDefSite | DefThis | DefFunctionName | DefTypeName

datatype callable = FunDef FunctionDefinition | VarDecl VariableDeclaration

text \<open>
  The state a check threads: the caller's \<open>TypeMap\<close>, the \<open>defSite\<close> field of the
  identifier nodes, and the function-set objects (\<open>definitions\<close> and \<open>defaultArg\<close> of
  the object behind each reference, and the next free reference).
\<close>

record tc_state =
  typeMap :: "snode \<Rightarrow> stype option"
  defSite :: "snode \<Rightarrow> def_site option"
  fsDefinitions :: "nat \<Rightarrow> callable list"
  fsDefaultArg :: "nat \<Rightarrow> snode option"
  fsNext :: nat

text \<open>
  A computation either runs out of fuel (\<open>None\<close>, the model of a recursion that does
  not return) or ends with a diagnostic (\<open>Inl\<close>) or a value (\<open>Inr\<close>), and a state.
\<close>

type_synonym 'a tcm = "tc_state \<Rightarrow> ((error + 'a) \<times> tc_state) option"

definition treturn :: "'a \<Rightarrow> 'a tcm" where
  "treturn x = (\<lambda>st. Some (Inr x, st))"

definition tthrow :: "error \<Rightarrow> 'a tcm" where
  "tthrow e = (\<lambda>st. Some (Inl e, st))"

definition tlift :: "error + 'a \<Rightarrow> 'a tcm" where
  "tlift r = (\<lambda>st. Some (r, st))"

definition tbind :: "'a tcm \<Rightarrow> ('a \<Rightarrow> 'b tcm) \<Rightarrow> 'b tcm" where
  "tbind m f = (\<lambda>st.
     case m st of
       None \<Rightarrow> None
     | Some (Inl e, st1) \<Rightarrow> Some (Inl e, st1)
     | Some (Inr x, st1) \<Rightarrow> f x st1)"

definition setDefSite :: "snode \<Rightarrow> def_site \<Rightarrow> unit tcm" where
  "setDefSite expr d = (\<lambda>st. Some (Inr (), st\<lparr>defSite := (defSite st)(expr \<mapsto> d)\<rparr>))"

text \<open>\<open>new SFunctionSetType(definitions, defaultArg)\<close>: a fresh object.\<close>

definition newFunctionSet :: "callable list \<Rightarrow> snode option \<Rightarrow> stype tcm" where
  "newFunctionSet defs arg = (\<lambda>st.
     Some (Inr (SFunctionSetType (fsNext st)),
       st\<lparr>fsDefinitions := (fsDefinitions st)(fsNext st := defs),
          fsDefaultArg := (fsDefaultArg st)(fsNext st := arg),
          fsNext := Suc (fsNext st)\<rparr>))"

section \<open>Scope and name resolution\<close>

fun find_index_of :: "string \<Rightarrow> string list \<Rightarrow> nat \<Rightarrow> nat option" where
  "find_index_of name [] i = None"
| "find_index_of name (b # bs) i = (if b = name then Some i else find_index_of name bs (Suc i))"

text \<open>The loop of \<open>lookupVarDef\<close>, on the scopes from the innermost outwards.\<close>

fun lookupVarDef_down :: "host \<Rightarrow> string \<Rightarrow> sscope list \<Rightarrow> VarDefSite option" where
  "lookupVarDef_down H name [] = None"
| "lookupVarDef_down H name (FunctionScope f # rest) =
     (case find (\<lambda>param. v_name param = name) (vParameters f) of
        Some param \<Rightarrow> Some (VarDef param)
      | None \<Rightarrow>
          (case find (\<lambda>param. v_name param = name) (vReturnParameters f) of
             Some param \<Rightarrow> Some (VarDef param)
           | None \<Rightarrow> lookupVarDef_down H name rest))"
| "lookupVarDef_down H name (ContractScope c # rest) =
     (case find (\<lambda>v. v_name v = name)
             (concat (map (\<lambda>base. vStateVariables (contractDef H base))
                (vLinearizedBaseContracts (contractDef H c)))) of
        Some v \<Rightarrow> Some (VarDef v)
      | None \<Rightarrow> lookupVarDef_down H name rest)"
| "lookupVarDef_down H name (SourceUnits us # rest) = None"
| "lookupVarDef_down H name (LetScope l # rest) =
     (case find_index_of name (l_lhs l) 0 of
        Some bindingIdx \<Rightarrow> Some (LetDef l bindingIdx)
      | None \<Rightarrow> lookupVarDef_down H name rest)"

definition lookupVarDef :: "host \<Rightarrow> string \<Rightarrow> STypingCtx \<Rightarrow> VarDefSite option" where
  "lookupVarDef H name ctx = lookupVarDef_down H name (rev ctx)"

fun resolveTypeDef_down :: "host \<Rightarrow> string \<Rightarrow> sscope list \<Rightarrow> udef option" where
  "resolveTypeDef_down H name [] = None"
| "resolveTypeDef_down H name (LetScope l # rest) = resolveTypeDef_down H name rest"
| "resolveTypeDef_down H name (FunctionScope f # rest) = resolveTypeDef_down H name rest"
| "resolveTypeDef_down H name (ContractScope c # rest) =
     (case find (\<lambda>def. def_name H def = name)
             (concat (map (\<lambda>base. map StructDef (vStructs (contractDef H base)) @
                                   map EnumDef (vEnums (contractDef H base)))
                (vLinearizedBaseContracts (contractDef H c)))) of
        Some def \<Rightarrow> Some def
      | None \<Rightarrow> resolveTypeDef_down H name rest)"
| "resolveTypeDef_down H name (SourceUnits us # rest) =
     (case find (\<lambda>def. def_name H def = name)
             (concat (map (\<lambda>sourceUnit. map StructDef (u_vStructs sourceUnit) @
                                         map EnumDef (u_vEnums sourceUnit)) us)) of
        Some def \<Rightarrow> Some def
      | None \<Rightarrow>
          (case find (\<lambda>def. def_name H def = name)
                  (concat (map (\<lambda>sourceUnit. map ContractDef (u_vContracts sourceUnit)) us)) of
             Some def \<Rightarrow> Some def
           | None \<Rightarrow> resolveTypeDef_down H name rest))"

text \<open>
  The loop of \<open>resolveTypeDef\<close> starts at \<open>ctx[ctx.length]\<close>, which is \<open>undefined\<close>
  and matches no scope class, so it runs over the scopes from the innermost outwards.
\<close>

definition resolveTypeDef :: "host \<Rightarrow> STypingCtx \<Rightarrow> string \<Rightarrow> udef option" where
  "resolveTypeDef H ctx name = resolveTypeDef_down H name (rev ctx)"

text \<open>
  \<open>ctx[1] as ContractDefinition\<close>. The cast is unchecked in the source; a context
  whose second scope is no contract makes the uses below fail, which the model
  reports as an internal error.
\<close>

definition ctxContract :: "STypingCtx \<Rightarrow> nat option" where
  "ctxContract ctx = (case ctx of s0 # ContractScope c # rest \<Rightarrow> Some c | _ \<Rightarrow> None)"

section \<open>Builtin type names\<close>

text \<open>\<open>/^address( )*(payable)?$/\<close>: two groups, each \<open>undefined\<close> when it took no part.\<close>

definition addressDetectRE :: "string \<Rightarrow> string option list option" where
  "addressDetectRE name =
     (case strip_prefix ''address'' name of
        None \<Rightarrow> None
      | Some r \<Rightarrow>
          (let r' = dropWhile (\<lambda>c. c = CHR '' '') r;
               g1 = (if r' = r then None else Some '' '') in
           if r' = [] then Some [g1, None]
           else if r' = ''payable'' then Some [g1, Some ''payable'']
           else None))"

text \<open>\<open>/^bytes([0-9]?[0-9]?)$/\<close>\<close>

definition bytesDetectRE :: "string \<Rightarrow> string option list option" where
  "bytesDetectRE name =
     (case strip_prefix ''bytes'' name of
        None \<Rightarrow> None
      | Some r \<Rightarrow> (if length r \<le> 2 \<and> list_all is_digit r then Some [Some r] else None))"

text \<open>\<open>/^(u)?int([0-9]?[0-9]?[0-9]?)$/\<close>\<close>

definition intDetectRE :: "string \<Rightarrow> string option list option" where
  "intDetectRE name =
     (case strip_prefix ''uint'' name of
        Some r \<Rightarrow>
          (if length r \<le> 3 \<and> list_all is_digit r then Some [Some ''u'', Some r] else None)
      | None \<Rightarrow>
          (case strip_prefix ''int'' name of
             Some r \<Rightarrow>
               (if length r \<le> 3 \<and> list_all is_digit r then Some [None, Some r] else None)
           | None \<Rightarrow> None))"

text \<open>A detector: the matcher and the processor applied to the groups (\<open>detect\<close>).\<close>

definition BuiltinTypeDetector ::
  "(string \<Rightarrow> string option list option) \<Rightarrow> (string option list \<Rightarrow> stype option) \<Rightarrow>
   string \<Rightarrow> stype option" where
  "BuiltinTypeDetector matcher processor name =
     (case matcher name of None \<Rightarrow> None | Some matches \<Rightarrow> processor matches)"

definition BuiltinTypeDetectors :: "(string \<Rightarrow> stype option) list" where
  "BuiltinTypeDetectors =
     [BuiltinTypeDetector (\<lambda>n. if n = ''bool'' then Some [] else None) (\<lambda>m. Some SBoolType),
      BuiltinTypeDetector (\<lambda>n. if n = ''string'' then Some [] else None) (\<lambda>m. Some SString),
      BuiltinTypeDetector addressDetectRE (\<lambda>matches. Some (SAddressType (matches ! 1 \<noteq> Some []))),
      BuiltinTypeDetector bytesDetectRE (\<lambda>matches.
        if matches ! 0 = Some [] then Some SBytes
        else (let width = parseInt (the (matches ! 0)) in
              if width < 1 \<or> width > 32 then None else Some (SFixedBytes width))),
      BuiltinTypeDetector (\<lambda>n. if n = ''byte'' then Some [] else None) (\<lambda>m. Some (SFixedBytes 1)),
      BuiltinTypeDetector intDetectRE (\<lambda>matches.
        (let isSigned = (matches ! 0 \<noteq> Some ''u'') in
         if matches ! 1 = Some [] then Some (SIntType 256 isSigned)
         else (let width = parseInt (the (matches ! 1)) in
               if width mod 8 \<noteq> 0 \<or> width < 8 \<or> width > 256 then None
               else Some (SIntType width isSigned))))]"

fun first_detected :: "(string \<Rightarrow> stype option) list \<Rightarrow> string \<Rightarrow> stype option" where
  "first_detected [] name = None"
| "first_detected (detector # ds) name =
     (case detector name of Some type \<Rightarrow> Some type | None \<Rightarrow> first_detected ds name)"

definition tcIdBuiltinType :: "string \<Rightarrow> stype option" where
  "tcIdBuiltinType name =
     (case first_detected BuiltinTypeDetectors name of
        Some type \<Rightarrow> Some (SBuiltinTypeNameType type)
      | None \<Rightarrow> None)"

section \<open>The checker\<close>

definition isSIntType :: "stype \<Rightarrow> bool" where
  "isSIntType t = (case t of SIntType n s \<Rightarrow> True | _ \<Rightarrow> False)"

definition isSFixedBytes :: "stype \<Rightarrow> bool" where
  "isSFixedBytes t = (case t of SFixedBytes n \<Rightarrow> True | _ \<Rightarrow> False)"

definition isInty :: "stype \<Rightarrow> bool" where
  "isInty type = (isSIntType type \<or> type = SIntLiteralType)"

definition isImplicitlyCastable :: "host \<Rightarrow> snode \<Rightarrow> stype \<Rightarrow> stype \<Rightarrow> bool" where
  "isImplicitlyCastable H expr type to =
     (if eq H type to then True
      else case (type, to) of
          (SIntLiteralType, SIntType n s) \<Rightarrow> True
        | (SStringLiteralType, SPointer SBytes l) \<Rightarrow> True
        | (SStringLiteralType, SPointer SString l) \<Rightarrow> True
        | (SIntType n1 s1, SIntType n2 s2) \<Rightarrow> s1 = s2 \<and> n1 \<le> n2
        | (SAddressType p1, SAddressType p2) \<Rightarrow> \<not> p2
        | (SPointer t1 l1, SPointer t2 l2) \<Rightarrow> eq H t1 t2
        | _ \<Rightarrow> False)"

definition unifyTypes ::
  "host \<Rightarrow> snode \<Rightarrow> stype \<Rightarrow> snode \<Rightarrow> stype \<Rightarrow> snode \<Rightarrow> error + stype" where
  "unifyTypes H exprA typeA exprB typeB commonParent =
     (if isImplicitlyCastable H exprA typeA typeB then Inr typeB
      else if isImplicitlyCastable H exprB typeB typeA then Inr typeA
      else Inl (IncompatibleTypes exprA typeA exprB typeB))"

text \<open>
  The helpers of \<open>tc\<close> call \<open>tc\<close> back on subexpressions; here they take that call as
  the parameter \<open>rec\<close>, and \<open>tc\<close> below ties the knot.
\<close>

type_synonym checker = "snode \<Rightarrow> STypingCtx \<Rightarrow> stype tcm"

definition tcIdVariable ::
  "host \<Rightarrow> checker \<Rightarrow> snode \<Rightarrow> string \<Rightarrow> STypingCtx \<Rightarrow> stype option tcm" where
  "tcIdVariable H rec expr name ctx =
     (case lookupVarDef H name ctx of
        None \<Rightarrow> treturn None
      | Some def \<Rightarrow>
          tbind (setDefSite expr (DefVar def)) (\<lambda>u.
            case def of
              VarDef v \<Rightarrow>
                (case vType v of
                   None \<Rightarrow> tthrow (SMissingSolidityType expr)
                 | Some t \<Rightarrow> tbind (tlift (astVarToSType H v None)) (\<lambda>T. treturn (Some T)))
            | LetDef letNode bindingIdx \<Rightarrow>
                tbind (rec (l_rhs letNode) ctx) (\<lambda>rhsT.
                  if length (l_lhs letNode) > 1 then
                    (case rhsT of
                       STupleType elements \<Rightarrow>
                         if length elements = length (l_lhs letNode)
                         then treturn (Some (elements ! bindingIdx))
                         else tthrow (SExprCountMismatch (let_snode letNode))
                     | _ \<Rightarrow> tthrow (SExprCountMismatch (let_snode letNode)))
                  else treturn (Some rhsT))))"

definition tcId :: "host \<Rightarrow> checker \<Rightarrow> snode \<Rightarrow> string \<Rightarrow> STypingCtx \<Rightarrow> stype tcm" where
  "tcId H rec expr name ctx =
     (if name = ''this'' then
        tbind (setDefSite expr DefThis) (\<lambda>u.
          case ctxContract ctx of
            None \<Rightarrow> tthrow (InternalError ''ctx[1] is not a contract'')
          | Some contract \<Rightarrow>
              treturn (SPointer
                (SUserDefinedType (getUserDefinedTypeFQName H (ContractDef contract))
                   (Some (ContractDef contract)))
                (Some Storage)))
      else case tcIdBuiltinType name of
        Some retT \<Rightarrow> treturn retT
      | None \<Rightarrow>
          tbind (tcIdVariable H rec expr name ctx) (\<lambda>r.
            case r of
              Some retT \<Rightarrow> treturn retT
            | None \<Rightarrow>
                (case ctxContract ctx of
                   None \<Rightarrow> tthrow (InternalError ''ctx[1] is not a contract'')
                 | Some contract \<Rightarrow>
                     (let funDefs = resolveByName H contract name in
                      if length funDefs > 0 then
                        tbind (setDefSite expr DefFunctionName) (\<lambda>u.
                          newFunctionSet (map FunDef funDefs) None)
                      else case resolveTypeDef H ctx name of
                        Some userDef \<Rightarrow>
                          tbind (setDefSite expr DefTypeName) (\<lambda>u.
                            treturn (SUserDefinedTypeNameType userDef))
                      | None \<Rightarrow>
                          (case BuiltinSymbols H name of
                             Some retT \<Rightarrow> treturn retT
                           | None \<Rightarrow> tthrow (SUnknownId expr))))))"

fun resultTypes :: "host \<Rightarrow> VariableDeclaration list \<Rightarrow> error + stype list" where
  "resultTypes H [] = Inr []"
| "resultTypes H (param # ps) =
     (case vType param of
        None \<Rightarrow> Inl (InternalError ''Internal error: return vars should always have a type.'')
      | Some t \<Rightarrow>
          ebind (astTypeNameToSType H t) (\<lambda>T.
          ebind (resultTypes H ps) (\<lambda>Ts. Inr (T # Ts))))"

definition tcResult :: "host \<Rightarrow> snode \<Rightarrow> STypingCtx \<Rightarrow> error + stype" where
  "tcResult H expr ctx =
     (case (if ctx = [] then None else Some (last ctx)) of
        Some (FunctionScope scope) \<Rightarrow>
          (case vReturnParameters scope of
             [] \<Rightarrow> Inl (SInvalidKeyword expr)
           | [param] \<Rightarrow>
               (case vType param of
                  None \<Rightarrow>
                    Inl (InternalError ''Internal error: return vars should always have a type.'')
                | Some retT \<Rightarrow> astTypeNameToSType H retT)
           | params \<Rightarrow> ebind (resultTypes H params) (\<lambda>Ts. Inr (STupleType Ts)))
      | _ \<Rightarrow> Inl (SInvalidKeyword expr))"

definition tcUnary ::
  "checker \<Rightarrow> snode \<Rightarrow> string \<Rightarrow> snode \<Rightarrow> STypingCtx \<Rightarrow> stype tcm" where
  "tcUnary rec expr op subexp ctx =
     (if op = ''!'' then
        tbind (rec subexp ctx) (\<lambda>innerT.
          if innerT \<noteq> SBoolType then tthrow (SWrongType subexp innerT)
          else treturn SBoolType)
      else if op = ''-'' then
        tbind (rec subexp ctx) (\<lambda>innerT.
          if innerT = SIntLiteralType \<or> isSIntType innerT then treturn innerT
          else tthrow (SWrongType subexp innerT))
      else rec subexp ctx)"

text \<open>What \<open>tcBinary\<close> computes once both operand types are known.\<close>

definition tcBinaryTypes ::
  "host \<Rightarrow> snode \<Rightarrow> snode \<Rightarrow> string \<Rightarrow> snode \<Rightarrow> stype \<Rightarrow> stype \<Rightarrow> error + stype" where
  "tcBinaryTypes H expr left op right lhsT rhsT =
     (if op = ''**'' then
        (if \<not> (isSIntType rhsT \<or> rhsT = SIntLiteralType) \<or>
            (case rhsT of SIntType n signed \<Rightarrow> signed | _ \<Rightarrow> False) \<or>
            (case right of SNumber i num \<Rightarrow> num < 0 | _ \<Rightarrow> False)
         then Inl (SWrongType right rhsT)
         else if \<not> (isSIntType lhsT \<or> lhsT = SIntLiteralType)
         then Inl (SWrongType left lhsT)
         else Inr (if lhsT = SIntLiteralType then rhsT else lhsT))
      else if op \<in> set [''*'', ''%'', ''/'', ''+'', ''-''] then
        (if \<not> (isSIntType lhsT \<or> lhsT = SIntLiteralType) then Inl (SWrongType left lhsT)
         else if \<not> (isSIntType rhsT \<or> rhsT = SIntLiteralType) then Inl (SWrongType right rhsT)
         else unifyTypes H left lhsT right rhsT expr)
      else if op \<in> set [''<<'', ''>>''] then
        (if \<not> (isSIntType lhsT \<or> lhsT = SIntLiteralType \<or> isSFixedBytes lhsT)
         then Inl (SWrongType right lhsT)
         else if \<not> (isSIntType rhsT \<or> rhsT = SIntLiteralType) then Inl (SWrongType right rhsT)
         else Inr (if lhsT = SIntLiteralType then rhsT else lhsT))
      else if op \<in> set [''<'', ''>'', ''<='', ''>=''] then
        (if \<not> (isSIntType lhsT \<or> lhsT = SIntLiteralType \<or> isSFixedBytes lhsT)
         then Inl (SWrongType right lhsT)
         else if \<not> (isSIntType rhsT \<or> rhsT = SIntLiteralType \<or> isSFixedBytes rhsT)
         then Inl (SWrongType right rhsT)
         else ebind (unifyTypes H left lhsT right rhsT expr) (\<lambda>u. Inr SBoolType))
      else if op \<in> set [''=='', ''!=''] then
        ebind (unifyTypes H left lhsT right rhsT expr) (\<lambda>u. Inr SBoolType)
      else if op \<in> set [''|'', ''&'', ''^''] then
        (if (isSIntType lhsT \<or> lhsT = SIntLiteralType \<or> isSFixedBytes lhsT) \<and>
            (isSIntType rhsT \<or> rhsT = SIntLiteralType \<or> isSFixedBytes rhsT)
         then unifyTypes H left lhsT right rhsT expr
         else Inl (IncompatibleTypes left lhsT right rhsT))
      else if op \<in> set [''||'', ''&&'', ''==>''] then
        (if \<not> (lhsT = SBoolType \<and> rhsT = SBoolType)
         then Inl (IncompatibleTypes left lhsT right rhsT)
         else Inr SBoolType)
      else Inl (InternalError ''NYI typecheck for binary operator''))"

definition tcBinary ::
  "host \<Rightarrow> checker \<Rightarrow> snode \<Rightarrow> snode \<Rightarrow> string \<Rightarrow> snode \<Rightarrow> STypingCtx \<Rightarrow> stype tcm" where
  "tcBinary H rec expr left op right ctx =
     tbind (rec left ctx) (\<lambda>lhsT.
     tbind (rec right ctx) (\<lambda>rhsT.
       tlift (tcBinaryTypes H expr left op right lhsT rhsT)))"

definition tcConditional ::
  "host \<Rightarrow> checker \<Rightarrow> snode \<Rightarrow> snode \<Rightarrow> snode \<Rightarrow> snode \<Rightarrow> STypingCtx \<Rightarrow> stype tcm" where
  "tcConditional H rec expr condition trueExp falseExp ctx =
     tbind (rec condition ctx) (\<lambda>condT.
     tbind (rec trueExp ctx) (\<lambda>trueT.
     tbind (rec falseExp ctx) (\<lambda>falseT.
       if condT \<noteq> SBoolType then tthrow (SWrongType condition condT)
       else tlift (unifyTypes H trueExp trueT falseExp falseT expr))))"

definition tcIndexAccess ::
  "host \<Rightarrow> checker \<Rightarrow> snode \<Rightarrow> snode \<Rightarrow> snode \<Rightarrow> STypingCtx \<Rightarrow> stype tcm" where
  "tcIndexAccess H rec expr base index ctx =
     tbind (rec base ctx) (\<lambda>baseT.
     tbind (rec index ctx) (\<lambda>indexT.
       case baseT of
         SFixedBytes n \<Rightarrow>
           if \<not> isInty indexT then tthrow (SWrongType index indexT)
           else treturn (SIntType 8 False)
       | SPointer toT loc \<Rightarrow>
           (case toT of
              SBytes \<Rightarrow>
                if \<not> isInty indexT then tthrow (SWrongType index indexT)
                else treturn (SIntType 8 False)
            | SArrayType elementT sz \<Rightarrow>
                if \<not> isInty indexT then tthrow (SWrongType index indexT)
                else treturn elementT
            | SMappingType keyType valueType \<Rightarrow>
                if \<not> isImplicitlyCastable H index indexT keyType
                then tthrow (SWrongType index indexT)
                else treturn valueType
            | _ \<Rightarrow> tthrow (SWrongType expr baseT))
       | _ \<Rightarrow> tthrow (SWrongType expr baseT)))"

text \<open>
  The \<open>using for\<close> loop of \<open>tcMemberAccess\<close> over the directives of one base, then
  over the bases. The functions are collected in a \<open>Set\<close>: each is kept once, in the
  order of first insertion.
\<close>

fun usingForFuns ::
  "host \<Rightarrow> string \<Rightarrow> stype \<Rightarrow> UsingForDirective list \<Rightarrow> error + FunctionDefinition list" where
  "usingForFuns H member generalBaseT [] = Inr []"
| "usingForFuns H member generalBaseT (usingFor # rest) =
     ebind (case vTypeName usingFor of
              None \<Rightarrow> Inr True
            | Some t \<Rightarrow> ebind (astTypeNameToSType H t) (\<lambda>T. Inr (eq H T generalBaseT)))
       (\<lambda>libraryApplies.
          ebind (usingForFuns H member generalBaseT rest) (\<lambda>funs.
            Inr ((if libraryApplies
                  then filter (\<lambda>fun. f_name fun = member)
                         (vFunctions (contractDef H (vLibraryName usingFor)))
                  else []) @ funs)))"

fun usingForBases ::
  "host \<Rightarrow> string \<Rightarrow> stype \<Rightarrow> nat list \<Rightarrow> error + FunctionDefinition list" where
  "usingForBases H member generalBaseT [] = Inr []"
| "usingForBases H member generalBaseT (base # rest) =
     ebind (usingForFuns H member generalBaseT (vUsingForDirectives (contractDef H base)))
       (\<lambda>funs. ebind (usingForBases H member generalBaseT rest) (\<lambda>funs'. Inr (funs @ funs')))"

definition insertion_order :: "'a list \<Rightarrow> 'a list" where
  "insertion_order xs = rev (remdups (rev xs))"

definition usingForFallback ::
  "host \<Rightarrow> snode \<Rightarrow> string \<Rightarrow> STypingCtx \<Rightarrow> stype \<Rightarrow> stype tcm" where
  "usingForFallback H base member ctx baseT =
     (let generalBaseT = despecializeType baseT in
      case ctxContract ctx of
        None \<Rightarrow> tthrow (InternalError ''ctx[1] is not a contract'')
      | Some contract \<Rightarrow>
          tbind (tlift (usingForBases H member generalBaseT
                   (vLinearizedBaseContracts (contractDef H contract)))) (\<lambda>collected.
            (let funs = insertion_order collected in
             if length funs > 0 then newFunctionSet (map FunDef funs) (Some base)
             else tthrow (SNoField base member))))"

text \<open>
  The rules of \<open>tcMemberAccess\<close> that come before the \<open>using for\<close> lookup. Each
  returns a type, throws, or falls through to the next (\<open>None\<close>).
\<close>

definition memberOfPointer ::
  "host \<Rightarrow> snode \<Rightarrow> string \<Rightarrow> stype \<Rightarrow> DataLocation option \<Rightarrow> stype option tcm" where
  "memberOfPointer H expr member baseToT baseLoc =
     (if (case baseToT of SArrayType e sz \<Rightarrow> True | _ \<Rightarrow> False) \<and> member = ''length''
      then treturn (Some (SIntType 256 False))
      else case baseToT of
        SUserDefinedType name (Some (StructDef rawDef)) \<Rightarrow>
          (case find (\<lambda>rawDecl. member = v_name rawDecl) (s_vMembers (structDef H rawDef)) of
             Some rawDecl \<Rightarrow>
               tbind (tlift (astVarToSType H rawDecl baseLoc)) (\<lambda>T. treturn (Some T))
           | None \<Rightarrow> tthrow (SNoField expr member))
      | SUserDefinedType name (Some (ContractDef rawDef)) \<Rightarrow>
          (let funDefs = resolveByName H rawDef member in
           if length funDefs > 0
           then tbind (newFunctionSet (map FunDef funDefs) None) (\<lambda>T. treturn (Some T))
           else case find (\<lambda>varDecl. member = v_name varDecl \<and> v_visibility varDecl = SVPublic)
                       (vStateVariables (contractDef H rawDef)) of
             Some varDecl \<Rightarrow>
               tbind (newFunctionSet [VarDecl varDecl] None) (\<lambda>T. treturn (Some T))
           | None \<Rightarrow>
               (case BuiltinAddressMembers H member of
                  Some type \<Rightarrow> treturn (Some type)
                | None \<Rightarrow> tthrow (SNoField expr member)))
      | _ \<Rightarrow> treturn None)"

definition memberSpecific ::
  "host \<Rightarrow> snode \<Rightarrow> string \<Rightarrow> STypingCtx \<Rightarrow> stype \<Rightarrow> stype option tcm" where
  "memberSpecific H expr member ctx baseT =
     (case baseT of
        SBuiltinStructType name members \<Rightarrow>
          (case map_of members member of
             None \<Rightarrow> tthrow (SNoField expr member)
           | Some type \<Rightarrow> treturn (Some type))
      | SPointer baseToT baseLoc \<Rightarrow> memberOfPointer H expr member baseToT baseLoc
      | SAddressType payable \<Rightarrow>
          (case BuiltinAddressMembers H member of
             None \<Rightarrow> tthrow (SNoField expr member)
           | Some type \<Rightarrow> treturn (Some type))
      | SUserDefinedTypeNameType (ContractDef definition) \<Rightarrow>
          (case resolveTypeDef H (take 1 ctx @ [ContractScope definition]) member of
             Some type \<Rightarrow> treturn (Some (SUserDefinedTypeNameType type))
           | None \<Rightarrow>
               (let funDefs = resolveByName H definition member in
                if length funDefs > 0
                then tbind (newFunctionSet (map FunDef funDefs) None) (\<lambda>T. treturn (Some T))
                else treturn None))
      | SUserDefinedTypeNameType (EnumDef rawDef) \<Rightarrow>
          (if member \<in> set (e_vMembers (enumDef H rawDef))
           then treturn (Some (SUserDefinedType (getUserDefinedTypeFQName H (EnumDef rawDef))
                                 (Some (EnumDef rawDef))))
           else treturn None)
      | SFunctionSetType r \<Rightarrow>
          (\<lambda>st. if member = ''selector'' \<and> length (fsDefinitions st r) = 1
                then treturn (Some (SFixedBytes 4)) st
                else treturn None st)
      | _ \<Rightarrow> treturn None)"

definition tcMemberAccess ::
  "host \<Rightarrow> checker \<Rightarrow> snode \<Rightarrow> snode \<Rightarrow> string \<Rightarrow> STypingCtx \<Rightarrow> stype tcm" where
  "tcMemberAccess H rec expr base member ctx =
     tbind (rec base ctx) (\<lambda>baseT.
     tbind (memberSpecific H expr member ctx baseT) (\<lambda>r.
       case r of
         Some type \<Rightarrow> treturn type
       | None \<Rightarrow> usingForFallback H base member ctx baseT))"

definition tcLet ::
  "checker \<Rightarrow> snode \<Rightarrow> let_node \<Rightarrow> STypingCtx \<Rightarrow> stype tcm" where
  "tcLet rec expr l ctx =
     tbind (rec (l_rhs l) ctx) (\<lambda>rhsT.
       if (case rhsT of
             STupleType elements \<Rightarrow> length (l_lhs l) \<noteq> length elements
           | _ \<Rightarrow> length (l_lhs l) \<noteq> 1)
       then tthrow (SExprCountMismatch expr)
       else rec (l_in l) (ctx @ [LetScope l]))"

section \<open>Function calls\<close>

definition getFunDefType :: "host \<Rightarrow> FunctionDefinition \<Rightarrow> error + stype" where
  "getFunDefType H fun =
     ebind (astVarsToSTypes H (vParameters fun)) (\<lambda>parameters.
     ebind (astVarsToSTypes H (vReturnParameters fun)) (\<lambda>returns.
       Inr (SFunctionType parameters returns (f_visibility fun) (f_stateMutability fun))))"

fun castableAll :: "host \<Rightarrow> snode list \<Rightarrow> stype list \<Rightarrow> stype list \<Rightarrow> bool" where
  "castableAll H arg argTs [] = True"
| "castableAll H arg argTs (formalT # formals) =
     (if \<not> isImplicitlyCastable H (hd arg) (hd argTs) formalT then False
      else castableAll H (tl arg) (tl argTs) formals)"

text \<open>\<open>matchArguments\<close> on the parameter types of the callable.\<close>

definition matchParameters :: "host \<Rightarrow> snode list \<Rightarrow> stype list \<Rightarrow> stype list \<Rightarrow> bool" where
  "matchParameters H arg argTs parameters =
     (if length argTs \<noteq> length parameters then False
      else castableAll H arg argTs parameters)"

definition matchArguments ::
  "host \<Rightarrow> snode list \<Rightarrow> stype list \<Rightarrow> FunctionDefinition \<Rightarrow> error + bool" where
  "matchArguments H arg argTs callable =
     ebind (getFunDefType H callable) (\<lambda>funT.
       case funT of
         SFunctionType parameters returns vis mut \<Rightarrow>
           Inr (matchParameters H arg argTs parameters)
       | _ \<Rightarrow> Inr False)"

fun matchingFunDefs ::
  "host \<Rightarrow> snode list \<Rightarrow> stype list \<Rightarrow> callable list \<Rightarrow> error + callable list" where
  "matchingFunDefs H args argTs [] = Inr []"
| "matchingFunDefs H args argTs (VarDecl v # defs) = matchingFunDefs H args argTs defs"
| "matchingFunDefs H args argTs (FunDef fun # defs) =
     ebind (matchArguments H args argTs fun) (\<lambda>m.
     ebind (matchingFunDefs H args argTs defs) (\<lambda>ms.
       Inr (if m then FunDef fun # ms else ms)))"

definition isVarDecl :: "callable \<Rightarrow> bool" where
  "isVarDecl c = (case c of VarDecl v \<Rightarrow> True | FunDef f \<Rightarrow> False)"

fun tcArgs :: "checker \<Rightarrow> snode list \<Rightarrow> STypingCtx \<Rightarrow> stype list tcm" where
  "tcArgs rec [] ctx = treturn []"
| "tcArgs rec (arg # args) ctx =
     tbind (rec arg ctx) (\<lambda>T. tbind (tcArgs rec args ctx) (\<lambda>Ts. treturn (T # Ts)))"

definition returnType :: "snode \<Rightarrow> stype list \<Rightarrow> error + stype" where
  "returnType expr retTs =
     (if length retTs = 1 then Inr (retTs ! 0)
      else if length retTs > 1 then Inr (STupleType retTs)
      else Inl (SFunNoReturn expr))"

text \<open>\<open>(argTs[0] as SPointer).location\<close>: \<open>undefined\<close> on a type that is no pointer.\<close>

definition locationOf :: "stype \<Rightarrow> DataLocation option" where
  "locationOf t = (case t of SPointer to loc \<Rightarrow> loc | _ \<Rightarrow> None)"

definition narrowFunctionSet :: "nat \<Rightarrow> callable \<Rightarrow> unit tcm" where
  "narrowFunctionSet r def = (\<lambda>st.
     Some (Inr (), st\<lparr>fsDefinitions := (fsDefinitions st)(r := [def])\<rparr>))"

text \<open>The overload-set case of \<open>tcFunctionCall\<close>, from the checked arguments on.\<close>

definition callFunctionSet ::
  "host \<Rightarrow> snode \<Rightarrow> snode list \<Rightarrow> nat \<Rightarrow> snode list \<Rightarrow> stype list \<Rightarrow> stype tcm" where
  "callFunctionSet H expr exprArgs r args argTs = (\<lambda>st.
     (tbind (tlift (matchingFunDefs H args argTs (fsDefinitions st r))) (\<lambda>matchingFuns.
        (let matchingVarDefs =
               filter (\<lambda>fun. isVarDecl fun \<and> length exprArgs = 0) (fsDefinitions st r);
             matchingDefs = matchingFuns @ matchingVarDefs in
         if length matchingDefs = 0 then tthrow (SUnresolvedFun expr)
         else if length matchingDefs > 1
         then tthrow (InternalError ''Multiple functions / public getters match callsite'')
         else
           tbind (narrowFunctionSet r (matchingDefs ! 0)) (\<lambda>u.
             case matchingDefs ! 0 of
               FunDef def \<Rightarrow>
                 tbind (tlift (astVarsToSTypes H (vReturnParameters def))) (\<lambda>retTs.
                   tlift (returnType expr retTs))
             | VarDecl def \<Rightarrow>
                 (case vType def of
                    Some (UserDefinedTypeName d) \<Rightarrow>
                      tthrow (InternalError ''NYI public getters'')
                  | _ \<Rightarrow> tlift (astVarToSType H def None)))))) st)"

definition tcFunctionCall ::
  "host \<Rightarrow> checker \<Rightarrow> snode \<Rightarrow> snode \<Rightarrow> snode list \<Rightarrow> STypingCtx \<Rightarrow> stype tcm" where
  "tcFunctionCall H rec expr callee exprArgs ctx =
     tbind (rec callee ctx) (\<lambda>calleeT.
       case calleeT of
         SBuiltinTypeNameType type \<Rightarrow>
           tbind (tcArgs rec exprArgs ctx) (\<lambda>argTs.
             if length exprArgs \<noteq> 1 then tthrow (SExprCountMismatch expr)
             else treturn type)
       | SUserDefinedTypeNameType definition \<Rightarrow>
           tbind (tcArgs rec exprArgs ctx) (\<lambda>argTs.
             case definition of
               StructDef d \<Rightarrow>
                 treturn (SPointer
                   (SUserDefinedType (getUserDefinedTypeFQName H definition) (Some definition))
                   (Some Memory))
             | _ \<Rightarrow>
                 if length argTs \<noteq> 1 then tthrow (SExprCountMismatch expr)
                 else treturn (SPointer
                   (SUserDefinedType (getUserDefinedTypeFQName H definition) (Some definition))
                   (case definition of
                      ContractDef d \<Rightarrow> Some Storage
                    | _ \<Rightarrow> locationOf (argTs ! 0))))
       | SFunctionSetType r \<Rightarrow>
           (\<lambda>st.
              (let args = (case fsDefaultArg st r of
                             Some defaultArg \<Rightarrow> defaultArg # exprArgs
                           | None \<Rightarrow> exprArgs) in
               tbind (tcArgs rec args ctx) (\<lambda>argTs.
                 callFunctionSet H expr exprArgs r args argTs)) st)
       | SFunctionType parameters returns vis mut \<Rightarrow>
           tbind (tcArgs rec exprArgs ctx) (\<lambda>argTs.
             if \<not> matchParameters H exprArgs argTs parameters
             then tthrow (SArgumentMismatch expr)
             else tlift (returnType expr returns))
       | _ \<Rightarrow> tthrow (SWrongType callee calleeT))"

section \<open>The entry point\<close>

text \<open>The dispatch of \<open>tc\<close> on the node class, between the cache lookup and the store.\<close>

definition tcDispatch :: "host \<Rightarrow> checker \<Rightarrow> snode \<Rightarrow> STypingCtx \<Rightarrow> stype tcm" where
  "tcDispatch H rec expr ctx =
     (case expr of
        SNumber i num \<Rightarrow> treturn SIntLiteralType
      | SBooleanLiteral i b \<Rightarrow> treturn SBoolType
      | SStringLiteral i v \<Rightarrow> treturn SStringLiteralType
      | SHexLiteral i v \<Rightarrow> treturn SStringLiteralType
      | SAddressLiteral i v \<Rightarrow> treturn (SAddressType True)
      | SId i name \<Rightarrow> tcId H rec expr name ctx
      | SResult i \<Rightarrow> tlift (tcResult H expr ctx)
      | SUnaryOperation i op subexp \<Rightarrow> tcUnary rec expr op subexp ctx
      | SBinaryOperation i left op right \<Rightarrow> tcBinary H rec expr left op right ctx
      | SConditional i condition trueExp falseExp \<Rightarrow>
          tcConditional H rec expr condition trueExp falseExp ctx
      | SIndexAccess i base index \<Rightarrow> tcIndexAccess H rec expr base index ctx
      | SMemberAccess i base member \<Rightarrow> tcMemberAccess H rec expr base member ctx
      | SLet i lhs rhs body \<Rightarrow> tcLet rec expr (LetNode i lhs rhs body) ctx
      | SFunctionCall i callee args \<Rightarrow> tcFunctionCall H rec expr callee args ctx
      | STypeNode i type \<Rightarrow>
          (case type of
             SUserDefinedType name definition \<Rightarrow>
               (case definition of
                  None \<Rightarrow> tthrow (InternalError ''Type expression is missing def'')
                | Some def \<Rightarrow> treturn (SUserDefinedTypeNameType def))
           | _ \<Rightarrow> treturn (SBuiltinTypeNameType type)))"

definition cache :: "snode \<Rightarrow> stype \<Rightarrow> stype tcm" where
  "cache expr type = (\<lambda>st. Some (Inr type, st\<lparr>typeMap := (typeMap st)(expr \<mapsto> type)\<rparr>))"

definition tcStep :: "host \<Rightarrow> checker \<Rightarrow> checker" where
  "tcStep H rec expr ctx = (\<lambda>st.
     case typeMap st expr of
       Some type \<Rightarrow> Some (Inr type, st)
     | None \<Rightarrow> tbind (tcDispatch H rec expr ctx) (\<lambda>type. cache expr type) st)"

text \<open>
  \<open>tc\<close> with a bound on the depth of the recursion: \<open>tc n\<close> answers \<open>None\<close> when a
  check needs more than \<open>n\<close> nested calls. The recursion of the source is not
  structural (an identifier bound by a let of the context re-checks that let's right-hand
  side), so a check may fail to return; then \<open>tc n\<close> is \<open>None\<close> for every \<open>n\<close>.
\<close>

primrec tc :: "nat \<Rightarrow> host \<Rightarrow> checker" where
  "tc 0 H = (\<lambda>expr ctx st. None)"
| "tc (Suc n) H = tcStep H (tc n H)"

section \<open>The well-formedness invariant of the specification\<close>

text \<open>
  Reference types: arrays, \<open>bytes\<close>, \<open>string\<close>, mappings, structs and contracts.
\<close>

fun isReferenceType :: "stype \<Rightarrow> bool" where
  "isReferenceType (SArrayType e sz) = True"
| "isReferenceType SBytes = True"
| "isReferenceType SString = True"
| "isReferenceType (SMappingType k v) = True"
| "isReferenceType (SUserDefinedType name (Some (StructDef d))) = True"
| "isReferenceType (SUserDefinedType name (Some (ContractDef d))) = True"
| "isReferenceType t = False"

text \<open>
  A type is well-formed when a reference type occurs in it only as the target of a
  pointer, and the target of every pointer is a reference type (so no value type and
  no tuple stands inside a pointer).
\<close>

fun wellFormed :: "stype \<Rightarrow> bool" where
  "wellFormed (SPointer (SArrayType e sz) loc) = wellFormed e"
| "wellFormed (SPointer (SMappingType k v) loc) = (wellFormed k \<and> wellFormed v)"
| "wellFormed (SPointer to loc) = isReferenceType to"
| "wellFormed (STupleType ts) = list_all wellFormed ts"
| "wellFormed t = (\<not> isReferenceType t)"

text \<open>The innermost scope of a context, when it is a function (\<open>ctx[ctx.length - 1]\<close>).\<close>

definition innermostFunction :: "STypingCtx \<Rightarrow> FunctionDefinition option" where
  "innermostFunction ctx =
     (if ctx = [] then None
      else case last ctx of FunctionScope f \<Rightarrow> Some f | _ \<Rightarrow> None)"



section \<open>Invariants of a computation\<close>

text \<open>
  \<open>keeps J m\<close>: a state predicate that holds before \<open>m\<close> holds after it, whatever \<open>m\<close>
  answers. \<open>frame J\<close>: the predicate survives a write of a def-site, a narrowing of a
  function set, and the allocation of a function set that has no default argument.
\<close>

definition keeps :: "(tc_state \<Rightarrow> bool) \<Rightarrow> 'a tcm \<Rightarrow> bool" where
  "keeps J m = (\<forall>st r st'. J st \<longrightarrow> m st = Some (r, st') \<longrightarrow> J st')"

definition frame :: "(tc_state \<Rightarrow> bool) \<Rightarrow> bool" where
  "frame J = (\<forall>st f g k r. J st \<longrightarrow>
     J (st\<lparr>defSite := f\<rparr>) \<and> J (st\<lparr>fsDefinitions := g\<rparr>) \<and>
     J (st\<lparr>fsDefinitions := g, fsDefaultArg := (fsDefaultArg st)(r := None), fsNext := k\<rparr>))"





text \<open>
  \<open>answersOf m m'\<close>: wherever \<open>m\<close> returns, \<open>m'\<close> returns the same (\<open>m'\<close> may return
  where \<open>m\<close> ran out of fuel).
\<close>

definition answersOf :: "'a tcm \<Rightarrow> 'a tcm \<Rightarrow> bool" where
  "answersOf m m' = (\<forall>st x. m st = Some x \<longrightarrow> m' st = Some x)"

section \<open>A sample contract\<close>

text \<open>
  The contract the concrete instances below are checked in (after the contract \<open>Foo\<close> of
  the unit tests):
  \<^verbatim>\<open>
  library Lib  { function ladd(uint32 a, uint32 b) public returns (uint32) }
  library Lib2 { function foo(int128 x) public returns (bool) }
  contract Foo {
      uint sV; address sA; uint32 u32a; string sS; SFoo sFoo;
      using Lib for uint32; using Lib2 for *;
      enum FooEnum { D, E }
      struct SFoo { uint x; }
      function add(int8 x, uint64 y) public returns (uint64 add)
      function str() public returns (string memory)
      function noReturn(uint x) public
      function over(uint8 a) public returns (bool)
      function over(uint16 a) public returns (bool)
      function idPair(uint x, uint y) public returns (uint, uint)
  }
  \<close>
\<close>

definition sampleVar :: "string \<Rightarrow> string \<Rightarrow> var_scope \<Rightarrow> VariableDeclaration" where
  "sampleVar n t sc =
     VariableDeclaration n (Some (ElementaryTypeName t ''nonpayable'')) Default sc False SVInternal"

definition sampleFun ::
  "nat \<Rightarrow> string \<Rightarrow> VariableDeclaration list \<Rightarrow> VariableDeclaration list \<Rightarrow> FunctionDefinition" where
  "sampleFun i n ps rs =
     \<lparr>f_id = i, f_name = n, vParameters = ps, vReturnParameters = rs,
      f_visibility = Public, f_stateMutability = NonPayable\<rparr>"

definition sample_add :: FunctionDefinition where
  "sample_add = sampleFun 100 ''add''
     [sampleVar ''x'' ''int8'' (InFunction Public), sampleVar ''y'' ''uint64'' (InFunction Public)]
     [sampleVar ''add'' ''uint64'' (InFunction Public)]"

definition sample_str :: FunctionDefinition where
  "sample_str = sampleFun 101 ''str'' []
     [VariableDeclaration [] (Some (ElementaryTypeName ''string'' ''nonpayable'')) Memory
        (InFunction Public) False SVInternal]"

definition sample_noReturn :: FunctionDefinition where
  "sample_noReturn = sampleFun 102 ''noReturn'' [sampleVar ''x'' ''uint'' (InFunction Public)] []"

definition sample_over8 :: FunctionDefinition where
  "sample_over8 = sampleFun 103 ''over'' [sampleVar ''a'' ''uint8'' (InFunction Public)]
     [sampleVar [] ''bool'' (InFunction Public)]"

definition sample_over16 :: FunctionDefinition where
  "sample_over16 = sampleFun 104 ''over'' [sampleVar ''a'' ''uint16'' (InFunction Public)]
     [sampleVar [] ''bool'' (InFunction Public)]"

definition sample_idPair :: FunctionDefinition where
  "sample_idPair = sampleFun 107 ''idPair''
     [sampleVar ''x'' ''uint'' (InFunction Public), sampleVar ''y'' ''uint'' (InFunction Public)]
     [sampleVar [] ''uint'' (InFunction Public), sampleVar [] ''uint'' (InFunction Public)]"

definition sample_ladd :: FunctionDefinition where
  "sample_ladd = sampleFun 105 ''ladd''
     [sampleVar ''a'' ''uint32'' (InFunction Public), sampleVar ''b'' ''uint32'' (InFunction Public)]
     [sampleVar [] ''uint32'' (InFunction Public)]"

definition sample_foo :: FunctionDefinition where
  "sample_foo = sampleFun 106 ''foo'' [sampleVar ''x'' ''int128'' (InFunction Public)]
     [sampleVar [] ''bool'' (InFunction Public)]"

definition sampleContract :: "nat \<Rightarrow> ContractDefinition" where
  "sampleContract i =
     (if i = 0 then
        \<lparr>c_name = ''Foo'', c_scope = None, vLinearizedBaseContracts = [0],
         vStateVariables =
           [sampleVar ''sV'' ''uint'' InContract, sampleVar ''sA'' ''address'' InContract,
            sampleVar ''u32a'' ''uint32'' InContract, sampleVar ''sS'' ''string'' InContract,
            VariableDeclaration ''sFoo'' (Some (UserDefinedTypeName (Some (StructDef 0))))
              Default InContract False SVInternal],
         vStructs = [0], vEnums = [0],
         vUsingForDirectives =
           [\<lparr>vTypeName = Some (ElementaryTypeName ''uint32'' ''nonpayable''), vLibraryName = 1\<rparr>,
            \<lparr>vTypeName = None, vLibraryName = 2\<rparr>],
         vFunctions =
           [sample_add, sample_str, sample_noReturn, sample_over8, sample_over16, sample_idPair]\<rparr>
      else if i = 1 then
        \<lparr>c_name = ''Lib'', c_scope = None, vLinearizedBaseContracts = [1],
         vStateVariables = [], vStructs = [], vEnums = [], vUsingForDirectives = [],
         vFunctions = [sample_ladd]\<rparr>
      else
        \<lparr>c_name = ''Lib2'', c_scope = None, vLinearizedBaseContracts = [2],
         vStateVariables = [], vStructs = [], vEnums = [], vUsingForDirectives = [],
         vFunctions = [sample_foo]\<rparr>)"

definition sampleHost :: host where
  "sampleHost =
     \<lparr>structDef = (\<lambda>i. \<lparr>s_name = ''SFoo'', s_scope = Some ''Foo'',
                          s_vMembers = [sampleVar ''x'' ''uint'' InOther]\<rparr>),
      enumDef = (\<lambda>i. \<lparr>e_name = ''FooEnum'', e_scope = Some ''Foo'', e_vMembers = [''D'', ''E'']\<rparr>),
      contractDef = sampleContract,
      resolveByName = (\<lambda>c name.
        filter (\<lambda>f. f_name f = name)
          (concat (map (\<lambda>b. vFunctions (sampleContract b))
             (vLinearizedBaseContracts (sampleContract c))))),
      eq = (=),
      BuiltinSymbols = (\<lambda>name.
        if name = ''gasleft''
        then Some (SFunctionType [] [SIntType 256 False] DefaultVisibility View) else None),
      BuiltinAddressMembers = (\<lambda>name.
        if name = ''balance'' then Some (SIntType 256 False) else None)\<rparr>"

definition sampleCtx :: STypingCtx where
  "sampleCtx =
     [SourceUnits [\<lparr>u_vStructs = [], u_vEnums = [], u_vContracts = [0, 1, 2]\<rparr>], ContractScope 0]"

definition emptyState :: tc_state where
  "emptyState =
     \<lparr>typeMap = (\<lambda>n. None), defSite = (\<lambda>n. None), fsDefinitions = (\<lambda>r. []),
      fsDefaultArg = (\<lambda>r. None), fsNext = 0\<rparr>"

section \<open>Evaluation lemmas\<close>

lemmas string_eval =
  trim_def is_space_def is_digit_def parseInt_def addressRE_def intLiteralRE_def
  intTypeRE_def bytesRE_def elementaryToSType_def

lemmas tcm_eval = treturn_def tthrow_def tlift_def tbind_def ebind_def

lemmas detect_eval =
  tcIdBuiltinType_def BuiltinTypeDetectors_def BuiltinTypeDetector_def addressDetectRE_def
  bytesDetectRE_def intDetectRE_def is_digit_def parseInt_def

section \<open>Specialization and despecialization (C1)\<close>

text \<open>
  C1. The claim is that \<open>despecializeType (specializeType T L) = T\<close> for every type
  that ingestion produces, nested reference types included. On the type of
  \<open>uint8[][]\<close> the code does otherwise: \<open>despecializeType\<close> removes the outer pointer
  and stops, so the pointer around the inner array stays and the result differs from
  the ingested type.
\<close>

theorem despecialize_specialize_nested_array:
  "astTypeNameToSType H
     (ArrayTypeName (ArrayTypeName (ElementaryTypeName ''uint8'' ''nonpayable'') None) None)
     = Inr (SArrayType (SArrayType (SIntType 8 False) None) None)
   \<and> specializeType (SArrayType (SArrayType (SIntType 8 False) None) None) Storage
     = Inr (SPointer (SArrayType (SPointer (SArrayType (SIntType 8 False) None) (Some Storage)) None)
              (Some Storage))
   \<and> despecializeType
       (SPointer (SArrayType (SPointer (SArrayType (SIntType 8 False) None) (Some Storage)) None)
          (Some Storage))
     = SArrayType (SPointer (SArrayType (SIntType 8 False) None) (Some Storage)) None
   \<and> despecializeType
       (SPointer (SArrayType (SPointer (SArrayType (SIntType 8 False) None) (Some Storage)) None)
          (Some Storage))
     \<noteq> SArrayType (SArrayType (SIntType 8 False) None) None"
  by (simp add: string_eval ebind_def)

section \<open>Builtin type names against ingestion (C7)\<close>

text \<open>
  C7. The claim is that the detectors give the type ingestion gives, and that the name
  \<open>address\<close> alone is a non-payable address. The detector tests the second group of
  its match against the empty string; the group took no part in the match and is
  undefined, so the test succeeds and the address is payable, while ingestion of the
  same name (state mutability \<open>nonpayable\<close>) is not.
\<close>

theorem detect_address_is_payable:
  "tcIdBuiltinType ''address'' = Some (SBuiltinTypeNameType (SAddressType True))
   \<and> astTypeNameToSType H (ElementaryTypeName ''address'' ''nonpayable'') = Inr (SAddressType False)"
  by (simp add: detect_eval string_eval)

section \<open>Basic facts about the checker monad and \<open>tc\<close>\<close>

lemma Some_fst_snd: "map_option fst x = Some a \<Longrightarrow> x = Some (a, snd (the x))"
  by (cases x) auto

lemma tbind_Some:
  "m st = Some (Inr x, st1) \<Longrightarrow> tbind m f st = f x st1"
  by (simp add: tbind_def)

lemma tbind_error:
  "m st = Some (Inl e, st1) \<Longrightarrow> tbind m f st = Some (Inl e, st1)"
  by (simp add: tbind_def)

lemma tbind_SomeE:
  assumes "tbind m f st = Some (r, st')"
  obtains (error) e where "m st = Some (Inl e, st')" "r = Inl e"
        | (ok) x st1 where "m st = Some (Inr x, st1)" "f x st1 = Some (r, st')"
  using assms by (auto simp: tbind_def split: option.splits sum.splits prod.splits)

lemma tc_cached:
  "typeMap st expr = Some type \<Longrightarrow> tc (Suc n) H expr ctx st = Some (Inr type, st)"
  by (simp add: tcStep_def)

lemma tc_uncached:
  "typeMap st expr = None \<Longrightarrow>
   tc (Suc n) H expr ctx st = tbind (tcDispatch H (tc n H) expr ctx) (\<lambda>type. cache expr type) st"
  by (simp add: tcStep_def)

lemma tcArgs_length:
  "tcArgs rec args ctx st = Some (Inr Ts, st') \<Longrightarrow> length Ts = length args"
proof (induction args arbitrary: st Ts)
  case Nil
  then show ?case by (simp add: treturn_def)
next
  case (Cons a args)
  from Cons.prems obtain T st1 Ts' where
    "tcArgs rec args ctx st1 = Some (Inr Ts', st')" and "Ts = T # Ts'"
    by (auto simp: treturn_def elim!: tbind_SomeE)
  with Cons.IH show ?case by auto
qed

section \<open>Ingestion raises internal errors only\<close>





section \<open>Well-formedness of the returned types (C2)\<close>

text \<open>
  C2. The claim is that every type \<open>tc\<close> returns keeps reference types inside
  pointers and value types outside. Two checks of the sample contract return a type
  that does not. \<open>$result\<close> in \<open>str\<close>, which returns \<open>string memory\<close>, has the type
  \<open>SString\<close>: \<open>tcResult\<close> ingests the type name and never specializes it to the
  parameter's location. The cast \<open>FooEnum(1)\<close> has the type of a pointer to the enum,
  a value type, with the location read off the argument's type, which has none.
\<close>

theorem result_and_enum_cast_not_wellFormed:
  "map_option fst
     (tc (Suc 0) sampleHost (SResult 0) (sampleCtx @ [FunctionScope sample_str]) emptyState)
     = Some (Inr SString)
   \<and> \<not> wellFormed SString
   \<and> map_option fst
       (tc (Suc (Suc (Suc 0))) sampleHost (SFunctionCall 0 (SId 1 ''FooEnum'') [SNumber 2 1])
          sampleCtx emptyState)
     = Some (Inr (SPointer (SUserDefinedType ''Foo.FooEnum'' (Some (EnumDef 0))) None))
   \<and> \<not> wellFormed (SPointer (SUserDefinedType ''Foo.FooEnum'' (Some (EnumDef 0))) None)"
proof -
  have a: "map_option fst
     (tc (Suc 0) sampleHost (SResult 0) (sampleCtx @ [FunctionScope sample_str]) emptyState)
     = Some (Inr SString)"
    by code_simp
  have b: "map_option fst
       (tc (Suc (Suc (Suc 0))) sampleHost (SFunctionCall 0 (SId 1 ''FooEnum'') [SNumber 2 1])
          sampleCtx emptyState)
     = Some (Inr (SPointer (SUserDefinedType ''Foo.FooEnum'' (Some (EnumDef 0))) None))"
    by code_simp
  have c: "\<not> wellFormed SString" by simp
  have d: "\<not> wellFormed (SPointer (SUserDefinedType ''Foo.FooEnum'' (Some (EnumDef 0))) None)"
    by simp
  show ?thesis by (intro conjI a b c d)
qed

section \<open>The keyword \<open>$result\<close> (C9)\<close>

lemma resultTypes_all:
  "list_all2 (\<lambda>p T. \<exists>t. vType p = Some t \<and> astTypeNameToSType H t = Inr T) ps Ts
   \<Longrightarrow> resultTypes H ps = Inr Ts"
  by (induction ps Ts rule: list_all2_induct) (auto simp: ebind_def)

lemma tcResult_not_function:
  "innermostFunction ctx = None \<Longrightarrow> tcResult H expr ctx = Inl (SInvalidKeyword expr)"
  by (auto simp: innermostFunction_def tcResult_def split: if_splits sscope.splits)

lemma tcResult_function:
  "innermostFunction ctx = Some f \<Longrightarrow>
   tcResult H expr ctx =
     (case vReturnParameters f of
        [] \<Rightarrow> Inl (SInvalidKeyword expr)
      | [param] \<Rightarrow>
          (case vType param of
             None \<Rightarrow> Inl (InternalError ''Internal error: return vars should always have a type.'')
           | Some retT \<Rightarrow> astTypeNameToSType H retT)
      | params \<Rightarrow> ebind (resultTypes H params) (\<lambda>Ts. Inr (STupleType Ts)))"
  by (auto simp: innermostFunction_def tcResult_def split: if_splits sscope.splits)

lemma tc_SResult:
  "typeMap st (SResult i) = None \<Longrightarrow>
   tc (Suc n) H (SResult i) ctx st =
     (case tcResult H (SResult i) ctx of
        Inl e \<Rightarrow> Some (Inl e, st)
      | Inr T \<Rightarrow> Some (Inr T, st\<lparr>typeMap := (typeMap st)(SResult i \<mapsto> T)\<rparr>))"
  by (simp add: tcStep_def tcDispatch_def cache_def tcm_eval split: sum.splits)

text \<open>
  C9. \<open>$result\<close> is an \<open>SInvalidKeyword\<close> diagnostic when the innermost scope is not a
  function (a let scope pushed on a function included) and when the function returns
  nothing; with one return parameter it is the ingestion of that parameter's type name;
  with several it is the tuple of the ingested type names. A check of a \<open>$result\<close> node
  that is not in the cache yet is exactly this, with the type stored on success.
\<close>

theorem tcResult_by_cases:
  "(innermostFunction ctx = None \<longrightarrow> tcResult H expr ctx = Inl (SInvalidKeyword expr))
   \<and> tcResult H expr (ctx @ [FunctionScope f, LetScope l]) = Inl (SInvalidKeyword expr)
   \<and> (innermostFunction ctx = Some f \<and> vReturnParameters f = []
        \<longrightarrow> tcResult H expr ctx = Inl (SInvalidKeyword expr))
   \<and> (innermostFunction ctx = Some f \<and> vReturnParameters f = [p] \<and> vType p = Some t
        \<longrightarrow> tcResult H expr ctx = astTypeNameToSType H t)
   \<and> (innermostFunction ctx = Some f \<and> length (vReturnParameters f) > 1 \<and>
        list_all2 (\<lambda>p T. \<exists>t. vType p = Some t \<and> astTypeNameToSType H t = Inr T)
          (vReturnParameters f) Ts
        \<longrightarrow> tcResult H expr ctx = Inr (STupleType Ts))
   \<and> (typeMap st (SResult i) = None
        \<longrightarrow> tc (Suc n) H (SResult i) ctx st =
            (case tcResult H (SResult i) ctx of
               Inl e \<Rightarrow> Some (Inl e, st)
             | Inr T \<Rightarrow> Some (Inr T, st\<lparr>typeMap := (typeMap st)(SResult i \<mapsto> T)\<rparr>)))"
proof (intro conjI impI)
  assume "innermostFunction ctx = None"
  then show "tcResult H expr ctx = Inl (SInvalidKeyword expr)"
    by (rule tcResult_not_function)
next
  show "tcResult H expr (ctx @ [FunctionScope f, LetScope l]) = Inl (SInvalidKeyword expr)"
    by (simp add: tcResult_def)
next
  assume "innermostFunction ctx = Some f \<and> vReturnParameters f = []"
  then show "tcResult H expr ctx = Inl (SInvalidKeyword expr)"
    by (simp add: tcResult_function)
next
  assume "innermostFunction ctx = Some f \<and> vReturnParameters f = [p] \<and> vType p = Some t"
  then show "tcResult H expr ctx = astTypeNameToSType H t"
    by (simp add: tcResult_function)
next
  assume a: "innermostFunction ctx = Some f \<and> length (vReturnParameters f) > 1 \<and>
        list_all2 (\<lambda>p T. \<exists>t. vType p = Some t \<and> astTypeNameToSType H t = Inr T)
          (vReturnParameters f) Ts"
  then have "resultTypes H (vReturnParameters f) = Inr Ts"
    by (simp add: resultTypes_all)
  with a show "tcResult H expr ctx = Inr (STupleType Ts)"
    by (cases "vReturnParameters f" rule: list.exhaust[case_names Nil Cons])
       (auto simp: tcResult_function ebind_def split: list.splits)
next
  assume "typeMap st (SResult i) = None"
  then show "tc (Suc n) H (SResult i) ctx st =
            (case tcResult H (SResult i) ctx of
               Inl e \<Rightarrow> Some (Inl e, st)
             | Inr T \<Rightarrow> Some (Inr T, st\<lparr>typeMap := (typeMap st)(SResult i \<mapsto> T)\<rparr>))"
    by (rule tc_SResult)
qed

theorem tcResult_by_cases_witness:
  "innermostFunction sampleCtx = None
   \<and> tcResult sampleHost (SResult 0) sampleCtx = Inl (SInvalidKeyword (SResult 0))
   \<and> innermostFunction (sampleCtx @ [FunctionScope sample_noReturn]) = Some sample_noReturn
   \<and> vReturnParameters sample_noReturn = []
   \<and> tcResult sampleHost (SResult 0) (sampleCtx @ [FunctionScope sample_noReturn])
       = Inl (SInvalidKeyword (SResult 0))
   \<and> innermostFunction (sampleCtx @ [FunctionScope sample_add]) = Some sample_add
   \<and> vReturnParameters sample_add = [sampleVar ''add'' ''uint64'' (InFunction Public)]
   \<and> tcResult sampleHost (SResult 0) (sampleCtx @ [FunctionScope sample_add])
       = Inr (SIntType 64 False)
   \<and> innermostFunction (sampleCtx @ [FunctionScope sample_idPair]) = Some sample_idPair
   \<and> tcResult sampleHost (SResult 0) (sampleCtx @ [FunctionScope sample_idPair])
       = Inr (STupleType [SIntType 256 False, SIntType 256 False])
   \<and> typeMap emptyState (SResult 0) = None
   \<and> map_option fst
       (tc (Suc 0) sampleHost (SResult 0) (sampleCtx @ [FunctionScope sample_add]) emptyState)
       = Some (Inr (SIntType 64 False))"
proof -
  let ?add = "sampleCtx @ [FunctionScope sample_add]"
  let ?nor = "sampleCtx @ [FunctionScope sample_noReturn]"
  let ?pair = "sampleCtx @ [FunctionScope sample_idPair]"
  let ?p = "sampleVar ''add'' ''uint64'' (InFunction Public)"
  let ?t = "ElementaryTypeName ''uint64'' ''nonpayable''"
  let ?Ts = "[SIntType 256 False, SIntType 256 False]"
  have h1: "innermostFunction sampleCtx = None" by code_simp
  have h2: "innermostFunction ?nor = Some sample_noReturn" by (simp add: innermostFunction_def)
  have h3: "vReturnParameters sample_noReturn = []"
    by (simp add: sample_noReturn_def sampleFun_def)
  have h4: "innermostFunction ?add = Some sample_add" by (simp add: innermostFunction_def)
  have h5: "vReturnParameters sample_add = [?p]" by (simp add: sample_add_def sampleFun_def)
  have h6: "vType ?p = Some ?t" by (simp add: sampleVar_def)
  have h7: "astTypeNameToSType sampleHost ?t = Inr (SIntType 64 False)"
    by (simp add: string_eval)
  have h8: "innermostFunction ?pair = Some sample_idPair" by (simp add: innermostFunction_def)
  have h9: "length (vReturnParameters sample_idPair) > 1"
    by (simp add: sample_idPair_def sampleFun_def)
  have h10: "list_all2 (\<lambda>p T. \<exists>t. vType p = Some t \<and> astTypeNameToSType sampleHost t = Inr T)
               (vReturnParameters sample_idPair) ?Ts"
    by (simp add: sample_idPair_def sampleFun_def sampleVar_def string_eval)
  have h11: "typeMap emptyState (SResult 0) = None" by (simp add: emptyState_def)
  have c1: "tcResult sampleHost (SResult 0) sampleCtx = Inl (SInvalidKeyword (SResult 0))"
    using tcResult_by_cases[of sampleCtx sampleHost "SResult 0" sample_add "LetNode 0 [] (SResult 0) (SResult 0)"
        ?p ?t ?Ts emptyState 0 0] h1 by blast
  have c2: "tcResult sampleHost (SResult 0) ?nor = Inl (SInvalidKeyword (SResult 0))"
    using tcResult_by_cases[of ?nor sampleHost "SResult 0" sample_noReturn
        "LetNode 0 [] (SResult 0) (SResult 0)" ?p ?t ?Ts emptyState 0 0] h2 h3 by blast
  have c3: "tcResult sampleHost (SResult 0) ?add = astTypeNameToSType sampleHost ?t"
    using tcResult_by_cases[of ?add sampleHost "SResult 0" sample_add
        "LetNode 0 [] (SResult 0) (SResult 0)" ?p ?t ?Ts emptyState 0 0] h4 h5 h6 by blast
  have c4: "tcResult sampleHost (SResult 0) ?pair = Inr (STupleType ?Ts)"
    using tcResult_by_cases[of ?pair sampleHost "SResult 0" sample_idPair
        "LetNode 0 [] (SResult 0) (SResult 0)" ?p ?t ?Ts emptyState 0 0] h8 h9 h10 by blast
  have c5: "tc (Suc 0) sampleHost (SResult 0) ?add emptyState =
            (case tcResult sampleHost (SResult 0) ?add of
               Inl e \<Rightarrow> Some (Inl e, emptyState)
             | Inr T \<Rightarrow> Some (Inr T, emptyState\<lparr>typeMap := (typeMap emptyState)(SResult 0 \<mapsto> T)\<rparr>))"
    using tcResult_by_cases[of ?add sampleHost "SResult 0" sample_add
        "LetNode 0 [] (SResult 0) (SResult 0)" ?p ?t ?Ts emptyState 0 0] h11 by blast
  have c3': "tcResult sampleHost (SResult 0) ?add = Inr (SIntType 64 False)"
    using c3 h7 by simp
  have c6: "map_option fst (tc (Suc 0) sampleHost (SResult 0) ?add emptyState)
            = Some (Inr (SIntType 64 False))"
    unfolding c5 c3' by simp
  show ?thesis by (intro conjI h1 c1 h2 h3 c2 h4 h5 c3' h8 c4 h11 c6)
qed

section \<open>Casts to an enum (C8)\<close>

text \<open>
  What \<open>tcFunctionCall\<close> does when the callee checks to the type name of an enum and the
  arguments check: \<open>locationOf\<close> is the read \<open>(argTs[0] as SPointer).location\<close>.
\<close>

lemma tc_enum_cast:
  assumes "typeMap st (SFunctionCall i callee args) = None"
    and "tc n H callee ctx st = Some (Inr (SUserDefinedTypeNameType (EnumDef d)), stC)"
    and "tcArgs (tc n H) args ctx stC = Some (Inr argTs, stA)"
  shows "tc (Suc n) H (SFunctionCall i callee args) ctx st =
           (if length args \<noteq> 1
            then Some (Inl (SExprCountMismatch (SFunctionCall i callee args)), stA)
            else Some (Inr (SPointer (SUserDefinedType (getUserDefinedTypeFQName H (EnumDef d))
                                        (Some (EnumDef d)))
                              (locationOf (argTs ! 0))),
                       stA\<lparr>typeMap := (typeMap stA)(SFunctionCall i callee args \<mapsto>
                              SPointer (SUserDefinedType (getUserDefinedTypeFQName H (EnumDef d))
                                          (Some (EnumDef d)))
                                (locationOf (argTs ! 0)))\<rparr>))
         \<and> locationOf (SPointer to loc) = loc
         \<and> ((\<forall>to loc. argTs ! 0 \<noteq> SPointer to loc) \<longrightarrow> locationOf (argTs ! 0) = None)"
proof -
  have len: "length argTs = length args"
    using assms(3) by (rule tcArgs_length)
  have "tcFunctionCall H (tc n H) (SFunctionCall i callee args) callee args ctx st =
          (if length args \<noteq> 1
           then Some (Inl (SExprCountMismatch (SFunctionCall i callee args)), stA)
           else Some (Inr (SPointer (SUserDefinedType (getUserDefinedTypeFQName H (EnumDef d))
                                        (Some (EnumDef d)))
                              (locationOf (argTs ! 0))), stA))"
    using assms(2,3) len
    by (simp add: tcFunctionCall_def tbind_Some treturn_def tthrow_def)
  then have call: "tc (Suc n) H (SFunctionCall i callee args) ctx st =
           (if length args \<noteq> 1
            then Some (Inl (SExprCountMismatch (SFunctionCall i callee args)), stA)
            else Some (Inr (SPointer (SUserDefinedType (getUserDefinedTypeFQName H (EnumDef d))
                                        (Some (EnumDef d)))
                              (locationOf (argTs ! 0))),
                       stA\<lparr>typeMap := (typeMap stA)(SFunctionCall i callee args \<mapsto>
                              SPointer (SUserDefinedType (getUserDefinedTypeFQName H (EnumDef d))
                                          (Some (EnumDef d)))
                                (locationOf (argTs ! 0)))\<rparr>))"
    using assms(1) by (simp add: tcStep_def tcDispatch_def tbind_def cache_def)
  have loc: "locationOf (SPointer to loc) = loc"
    by (simp add: locationOf_def)
  have none: "(\<forall>to loc. argTs ! 0 \<noteq> SPointer to loc) \<longrightarrow> locationOf (argTs ! 0) = None"
    by (cases "argTs ! 0") (auto simp: locationOf_def)
  show ?thesis by (intro conjI call loc none)
qed

text \<open>
  C8. The claim is that a cast to an enum needs exactly one argument and returns a
  pointer to the enum's user-defined type with the data location of the argument's
  type. The count is checked as claimed. The location is not: the code reads the field
  \<open>location\<close> off the argument's type through an unchecked cast to \<open>SPointer\<close>, so for
  every argument whose type is no pointer (every value type, and an enum is cast from
  a value) the returned pointer has no location at all. Only when the argument's type is
  itself a pointer is its location returned.
\<close>

theorem enum_cast_location_undefined:
  assumes "typeMap st (SFunctionCall i callee args) = None"
    and "tc n H callee ctx st = Some (Inr (SUserDefinedTypeNameType (EnumDef d)), stC)"
    and "tcArgs (tc n H) args ctx stC = Some (Inr argTs, stA)"
  shows "(length args \<noteq> 1 \<longrightarrow>
            tc (Suc n) H (SFunctionCall i callee args) ctx st
              = Some (Inl (SExprCountMismatch (SFunctionCall i callee args)), stA))
       \<and> (length args = 1 \<and> (\<forall>to loc. argTs ! 0 \<noteq> SPointer to loc) \<longrightarrow>
            map_option fst (tc (Suc n) H (SFunctionCall i callee args) ctx st)
              = Some (Inr (SPointer (SUserDefinedType (getUserDefinedTypeFQName H (EnumDef d))
                                       (Some (EnumDef d))) None)))
       \<and> (length args = 1 \<and> argTs ! 0 = SPointer to loc \<longrightarrow>
            map_option fst (tc (Suc n) H (SFunctionCall i callee args) ctx st)
              = Some (Inr (SPointer (SUserDefinedType (getUserDefinedTypeFQName H (EnumDef d))
                                       (Some (EnumDef d))) loc)))"
proof -
  note cast = tc_enum_cast[OF assms, of to loc]
  from cast have run: "tc (Suc n) H (SFunctionCall i callee args) ctx st =
           (if length args \<noteq> 1
            then Some (Inl (SExprCountMismatch (SFunctionCall i callee args)), stA)
            else Some (Inr (SPointer (SUserDefinedType (getUserDefinedTypeFQName H (EnumDef d))
                                        (Some (EnumDef d)))
                              (locationOf (argTs ! 0))),
                       stA\<lparr>typeMap := (typeMap stA)(SFunctionCall i callee args \<mapsto>
                              SPointer (SUserDefinedType (getUserDefinedTypeFQName H (EnumDef d))
                                          (Some (EnumDef d)))
                                (locationOf (argTs ! 0)))\<rparr>))"
    by (rule conjunct1)
  from cast have none: "(\<forall>to loc. argTs ! 0 \<noteq> SPointer to loc) \<longrightarrow> locationOf (argTs ! 0) = None"
    by blast
  have a: "length args \<noteq> 1 \<longrightarrow>
            tc (Suc n) H (SFunctionCall i callee args) ctx st
              = Some (Inl (SExprCountMismatch (SFunctionCall i callee args)), stA)"
    unfolding run by simp
  have b: "length args = 1 \<and> (\<forall>to loc. argTs ! 0 \<noteq> SPointer to loc) \<longrightarrow>
            map_option fst (tc (Suc n) H (SFunctionCall i callee args) ctx st)
              = Some (Inr (SPointer (SUserDefinedType (getUserDefinedTypeFQName H (EnumDef d))
                                       (Some (EnumDef d))) None))"
    unfolding run using none by simp
  have c: "length args = 1 \<and> argTs ! 0 = SPointer to loc \<longrightarrow>
            map_option fst (tc (Suc n) H (SFunctionCall i callee args) ctx st)
              = Some (Inr (SPointer (SUserDefinedType (getUserDefinedTypeFQName H (EnumDef d))
                                       (Some (EnumDef d))) loc))"
    unfolding run by (simp add: locationOf_def)
  show ?thesis by (intro conjI a b c)
qed

theorem enum_cast_location_undefined_witness:
  "typeMap emptyState (SFunctionCall 0 (SId 1 ''FooEnum'') [SNumber 2 1]) = None
   \<and> map_option fst (tc 2 sampleHost (SId 1 ''FooEnum'') sampleCtx emptyState)
       = Some (Inr (SUserDefinedTypeNameType (EnumDef 0)))
   \<and> map_option fst
       (tcArgs (tc 2 sampleHost) [SNumber 2 1] sampleCtx
          (snd (the (tc 2 sampleHost (SId 1 ''FooEnum'') sampleCtx emptyState))))
       = Some (Inr [SIntLiteralType])
   \<and> map_option fst
       (tc (Suc 2) sampleHost (SFunctionCall 0 (SId 1 ''FooEnum'') [SNumber 2 1]) sampleCtx
          emptyState)
       = Some (Inr (SPointer (SUserDefinedType ''Foo.FooEnum'' (Some (EnumDef 0))) None))
   \<and> map_option fst
       (tcArgs (tc 2 sampleHost) [SId 2 ''sS''] sampleCtx
          (snd (the (tc 2 sampleHost (SId 1 ''FooEnum'') sampleCtx emptyState))))
       = Some (Inr [SPointer SString (Some Storage)])
   \<and> map_option fst
       (tc (Suc 2) sampleHost (SFunctionCall 0 (SId 1 ''FooEnum'') [SId 2 ''sS'']) sampleCtx
          emptyState)
       = Some (Inr (SPointer (SUserDefinedType ''Foo.FooEnum'' (Some (EnumDef 0)))
                      (Some Storage)))
   \<and> map_option fst
       (tcArgs (tc 2 sampleHost) [SNumber 2 1, SNumber 3 2] sampleCtx
          (snd (the (tc 2 sampleHost (SId 1 ''FooEnum'') sampleCtx emptyState))))
       = Some (Inr [SIntLiteralType, SIntLiteralType])
   \<and> map_option fst
       (tc (Suc 2) sampleHost (SFunctionCall 0 (SId 1 ''FooEnum'') [SNumber 2 1, SNumber 3 2])
          sampleCtx emptyState)
       = Some (Inl (SExprCountMismatch
                      (SFunctionCall 0 (SId 1 ''FooEnum'') [SNumber 2 1, SNumber 3 2])))"
proof -
  let ?callee = "SId 1 ''FooEnum''"
  let ?one = "[SNumber 2 1]"
  let ?ptr = "[SId 2 ''sS'']"
  let ?two = "[SNumber 2 1, SNumber 3 2]"
  let ?stC = "snd (the (tc 2 sampleHost ?callee sampleCtx emptyState))"
  let ?stA = "\<lambda>xs. snd (the (tcArgs (tc 2 sampleHost) xs sampleCtx ?stC))"
  have u: "typeMap emptyState (SFunctionCall 0 ?callee xs) = None" for xs
    by (simp add: emptyState_def)
  have e: "map_option fst (tc 2 sampleHost ?callee sampleCtx emptyState)
       = Some (Inr (SUserDefinedTypeNameType (EnumDef 0)))"
    by code_simp
  have a1: "map_option fst (tcArgs (tc 2 sampleHost) ?one sampleCtx ?stC)
       = Some (Inr [SIntLiteralType])"
    by code_simp
  have a2: "map_option fst (tcArgs (tc 2 sampleHost) ?ptr sampleCtx ?stC)
       = Some (Inr [SPointer SString (Some Storage)])"
    by code_simp
  have a3: "map_option fst (tcArgs (tc 2 sampleHost) ?two sampleCtx ?stC)
       = Some (Inr [SIntLiteralType, SIntLiteralType])"
    by code_simp
  have fq: "getUserDefinedTypeFQName sampleHost (EnumDef 0) = ''Foo.FooEnum''"
    by code_simp
  note T1 = enum_cast_location_undefined[OF u Some_fst_snd[OF e] Some_fst_snd[OF a1],
              of SString None]
  note T2 = enum_cast_location_undefined[OF u Some_fst_snd[OF e] Some_fst_snd[OF a2],
              of SString "Some Storage"]
  note T3 = enum_cast_location_undefined[OF u Some_fst_snd[OF e] Some_fst_snd[OF a3],
              of SString None]
  have c1: "map_option fst
       (tc (Suc 2) sampleHost (SFunctionCall 0 ?callee ?one) sampleCtx emptyState)
       = Some (Inr (SPointer (SUserDefinedType ''Foo.FooEnum'' (Some (EnumDef 0))) None))"
    using T1 by (simp add: fq)
  have c2: "map_option fst
       (tc (Suc 2) sampleHost (SFunctionCall 0 ?callee ?ptr) sampleCtx emptyState)
       = Some (Inr (SPointer (SUserDefinedType ''Foo.FooEnum'' (Some (EnumDef 0)))
                      (Some Storage)))"
    using T2 by (simp add: fq)
  have c3: "map_option fst
       (tc (Suc 2) sampleHost (SFunctionCall 0 ?callee ?two) sampleCtx emptyState)
       = Some (Inl (SExprCountMismatch (SFunctionCall 0 ?callee ?two)))"
    using T3 by simp
  show ?thesis by (intro conjI u e a1 c1 a2 c2 a3 c3)
qed

section \<open>Identifier resolution (C5)\<close>
















section \<open>Member access and the \<open>using for\<close> lookup (C4)\<close>











section \<open>Calls of an overload set (C6)\<close>














section \<open>What a check leaves of an invariant of the state\<close>

lemma keepsI: "(\<And>st r st'. J st \<Longrightarrow> m st = Some (r, st') \<Longrightarrow> J st') \<Longrightarrow> keeps J m"
  by (auto simp: keeps_def)

lemma keepsD: "keeps J m \<Longrightarrow> J st \<Longrightarrow> m st = Some (r, st') \<Longrightarrow> J st'"
  by (auto simp: keeps_def)

lemma keeps_treturn: "keeps J (treturn x)"
  by (simp add: keeps_def treturn_def)

lemma keeps_tthrow: "keeps J (tthrow e)"
  by (simp add: keeps_def tthrow_def)

lemma keeps_tlift: "keeps J (tlift r)"
  by (simp add: keeps_def tlift_def)

lemma keeps_tbind: "keeps J m \<Longrightarrow> (\<And>x. keeps J (f x)) \<Longrightarrow> keeps J (tbind m f)"
  unfolding keeps_def by (metis tbind_SomeE)

lemma keeps_state: "(\<And>s. keeps J (f s)) \<Longrightarrow> keeps J (\<lambda>st. f st st)"
  unfolding keeps_def by blast

lemma frame_defSite: "frame J \<Longrightarrow> J st \<Longrightarrow> J (st\<lparr>defSite := f\<rparr>)"
  unfolding frame_def by blast

lemma frame_fsDefinitions: "frame J \<Longrightarrow> J st \<Longrightarrow> J (st\<lparr>fsDefinitions := g\<rparr>)"
  unfolding frame_def by blast

lemma frame_alloc:
  "frame J \<Longrightarrow> J st \<Longrightarrow>
   J (st\<lparr>fsDefinitions := g, fsDefaultArg := (fsDefaultArg st)(r := None), fsNext := k\<rparr>)"
  unfolding frame_def by blast

lemma keeps_setDefSite: "frame J \<Longrightarrow> keeps J (setDefSite e d)"
  by (rule keepsI) (auto simp: setDefSite_def intro: frame_defSite)

lemma keeps_newFunctionSet: "frame J \<Longrightarrow> keeps J (newFunctionSet defs None)"
  by (rule keepsI) (auto simp: newFunctionSet_def intro: frame_alloc)

lemma keeps_newFunctionSet_default:
  assumes "\<And>st g k r. J st \<Longrightarrow>
     J (st\<lparr>fsDefinitions := g, fsDefaultArg := (fsDefaultArg st)(r := Some base), fsNext := k\<rparr>)"
  shows "keeps J (newFunctionSet defs (Some base))"
  by (rule keepsI) (auto simp: newFunctionSet_def intro: assms)

lemma keeps_narrowFunctionSet: "frame J \<Longrightarrow> keeps J (narrowFunctionSet r d)"
  by (rule keepsI) (auto simp: narrowFunctionSet_def intro: frame_fsDefinitions)

lemma keeps_if:
  "(c \<Longrightarrow> keeps J a) \<Longrightarrow> (\<not> c \<Longrightarrow> keeps J b) \<Longrightarrow> keeps J (if c then a else b)"
  by simp

lemmas keeps_intros =
  keeps_treturn keeps_tthrow keeps_tlift keeps_tbind keeps_setDefSite
  keeps_newFunctionSet keeps_narrowFunctionSet keeps_if

lemma keeps_tcIdVariable:
  assumes "frame J"
    and "\<And>l idx. lookupVarDef H name ctx = Some (LetDef l idx) \<Longrightarrow> keeps J (rec (l_rhs l) ctx)"
  shows "keeps J (tcIdVariable H rec expr name ctx)"
proof (cases "lookupVarDef H name ctx")
  case None
  then show ?thesis by (simp add: tcIdVariable_def keeps_treturn)
next
  case (Some def)
  show ?thesis
  proof (cases def)
    case (VarDef v)
    with Some assms(1) show ?thesis
      by (cases "vType v") (auto simp: tcIdVariable_def intro!: keeps_intros)
  next
    case (LetDef l idx)
    have "\<And>rhsT. keeps J
            (if length (l_lhs l) > 1 then
               (case rhsT of
                  STupleType elements \<Rightarrow>
                    if length elements = length (l_lhs l)
                    then treturn (Some (elements ! idx))
                    else tthrow (SExprCountMismatch (let_snode l))
                | _ \<Rightarrow> tthrow (SExprCountMismatch (let_snode l)))
             else treturn (Some rhsT))"
      subgoal for rhsT by (cases rhsT) (auto intro!: keeps_intros)
      done
    with Some LetDef assms show ?thesis
      by (auto simp: tcIdVariable_def intro!: keeps_intros)
  qed
qed

lemma keeps_tcId:
  assumes "frame J"
    and "\<And>l idx. lookupVarDef H name ctx = Some (LetDef l idx) \<Longrightarrow> keeps J (rec (l_rhs l) ctx)"
  shows "keeps J (tcId H rec expr name ctx)"
proof -
  have v: "keeps J (tcIdVariable H rec expr name ctx)"
    using assms by (rule keeps_tcIdVariable)
  show ?thesis
    unfolding tcId_def Let_def
    using assms(1) v
    by (auto intro!: keeps_intros split: option.split)
qed

lemma keeps_tcUnary:
  "keeps J (rec subexp ctx) \<Longrightarrow> keeps J (tcUnary rec expr op subexp ctx)"
  by (auto simp: tcUnary_def intro!: keeps_intros)

lemma keeps_tcBinary:
  "keeps J (rec left ctx) \<Longrightarrow> keeps J (rec right ctx) \<Longrightarrow>
   keeps J (tcBinary H rec expr left op right ctx)"
  by (auto simp: tcBinary_def intro!: keeps_intros)

lemma keeps_tcIndexAccess:
  "keeps J (rec base ctx) \<Longrightarrow> keeps J (rec index ctx) \<Longrightarrow>
   keeps J (tcIndexAccess H rec expr base index ctx)"
  by (auto simp: tcIndexAccess_def intro!: keeps_intros split: stype.split)

lemma keeps_tcConditional:
  "keeps J (rec c ctx) \<Longrightarrow> keeps J (rec a ctx) \<Longrightarrow> keeps J (rec b ctx) \<Longrightarrow>
   keeps J (tcConditional H rec expr c a b ctx)"
  by (auto simp: tcConditional_def intro!: keeps_intros)

lemma keeps_memberOfPointer:
  "frame J \<Longrightarrow> keeps J (memberOfPointer H expr member baseToT baseLoc)"
  unfolding memberOfPointer_def Let_def
  by (auto intro!: keeps_intros split: stype.split option.split udef.split)

lemma keeps_memberSpecific:
  assumes "frame J"
  shows "keeps J (memberSpecific H expr member ctx baseT)"
proof (cases baseT)
  case (SFunctionSetType r)
  show ?thesis
    unfolding memberSpecific_def SFunctionSetType
    by (rule keepsI) (auto simp: treturn_def split: if_splits)
qed (auto simp: memberSpecific_def Let_def
          intro!: keeps_intros keeps_memberOfPointer assms split: option.split udef.split)

lemma keeps_usingForFallback:
  assumes "frame J"
    and "\<And>st g k r. J st \<Longrightarrow>
     J (st\<lparr>fsDefinitions := g, fsDefaultArg := (fsDefaultArg st)(r := Some base), fsNext := k\<rparr>)"
  shows "keeps J (usingForFallback H base member ctx baseT)"
  unfolding usingForFallback_def Let_def
  using assms
  by (auto intro!: keeps_intros keeps_newFunctionSet_default split: option.split)

text \<open>
  A member access: \<open>J\<close> before the base is checked, \<open>J'\<close> once the base has a type.
\<close>

lemma keeps_tcMemberAccess:
  assumes "frame J'"
    and alloc: "\<And>st g k r. J' st \<Longrightarrow>
     J' (st\<lparr>fsDefinitions := g, fsDefaultArg := (fsDefaultArg st)(r := Some base), fsNext := k\<rparr>)"
    and ok: "\<And>st T st'. J st \<Longrightarrow> rec base ctx st = Some (Inr T, st') \<Longrightarrow> J' st'"
    and err: "\<And>st e st'. J st \<Longrightarrow> rec base ctx st = Some (Inl e, st') \<Longrightarrow> J st'"
    and weaken: "\<And>st. J' st \<Longrightarrow> J st"
  shows "keeps J (tcMemberAccess H rec expr base member ctx)"
proof (rule keepsI)
  fix st res st'
  assume J: "J st" and c: "tcMemberAccess H rec expr base member ctx st = Some (res, st')"
  from c show "J st'"
    unfolding tcMemberAccess_def
  proof (cases rule: tbind_SomeE)
    case (error e)
    with J err show ?thesis by blast
  next
    case (ok baseT st1)
    from J ok(1) have "J' st1" by (rule assms(3))
    moreover have "keeps J' (tbind (memberSpecific H expr member ctx baseT) (\<lambda>r.
       case r of
         Some type \<Rightarrow> treturn type
       | None \<Rightarrow> usingForFallback H base member ctx baseT))"
      using assms(1) alloc
      by (auto intro!: keeps_intros keeps_memberSpecific keeps_usingForFallback
               split: option.split)
    ultimately have "J' st'" using ok(2) by (blast dest: keepsD)
    then show ?thesis by (rule weaken)
  qed
qed

lemma keeps_tcLet:
  assumes ok: "\<And>st T st'. J st \<Longrightarrow> rec (l_rhs l) ctx st = Some (Inr T, st') \<Longrightarrow> J' st'"
    and err: "\<And>st e st'. J st \<Longrightarrow> rec (l_rhs l) ctx st = Some (Inl e, st') \<Longrightarrow> J st'"
    and body: "\<And>st r st'. J' st \<Longrightarrow> rec (l_in l) (ctx @ [LetScope l]) st = Some (r, st') \<Longrightarrow> J st'"
    and weaken: "\<And>st. J' st \<Longrightarrow> J st"
  shows "keeps J (tcLet rec expr l ctx)"
proof (rule keepsI)
  fix st res st'
  assume J: "J st" and c: "tcLet rec expr l ctx st = Some (res, st')"
  from c show "J st'"
    unfolding tcLet_def
  proof (cases rule: tbind_SomeE)
    case (error e)
    with J err show ?thesis by blast
  next
    case (ok rhsT st1)
    from J ok(1) have J': "J' st1" by (rule assms(1))
    show ?thesis
    proof (cases "case rhsT of
             STupleType elements \<Rightarrow> length (l_lhs l) \<noteq> length elements
           | _ \<Rightarrow> length (l_lhs l) \<noteq> 1")
      case True
      with ok(2) have "st' = st1" by (simp add: tthrow_def)
      with J' weaken show ?thesis by blast
    next
      case False
      with ok(2) have "rec (l_in l) (ctx @ [LetScope l]) st1 = Some (res, st')" by simp
      with J' body show ?thesis by blast
    qed
  qed
qed

lemma keeps_tcArgs:
  "(\<And>a. a \<in> set args \<Longrightarrow> keeps J (rec a ctx)) \<Longrightarrow> keeps J (tcArgs rec args ctx)"
  by (induction args) (auto intro!: keeps_intros)

lemma keeps_callFunctionSet:
  assumes "frame J"
  shows "keeps J (callFunctionSet H expr exprArgs r args argTs)"
proof (rule keepsI)
  fix st res st'
  assume J: "J st" and c: "callFunctionSet H expr exprArgs r args argTs st = Some (res, st')"
  define m where "m =
     (tbind (tlift (matchingFunDefs H args argTs (fsDefinitions st r))) (\<lambda>matchingFuns.
        (let matchingVarDefs =
               filter (\<lambda>fun. isVarDecl fun \<and> length exprArgs = 0) (fsDefinitions st r);
             matchingDefs = matchingFuns @ matchingVarDefs in
         if length matchingDefs = 0 then tthrow (SUnresolvedFun expr)
         else if length matchingDefs > 1
         then tthrow (InternalError ''Multiple functions / public getters match callsite'')
         else
           tbind (narrowFunctionSet r (matchingDefs ! 0)) (\<lambda>u.
             case matchingDefs ! 0 of
               FunDef def \<Rightarrow>
                 tbind (tlift (astVarsToSTypes H (vReturnParameters def))) (\<lambda>retTs.
                   tlift (returnType expr retTs))
             | VarDecl def \<Rightarrow>
                 (case vType def of
                    Some (UserDefinedTypeName d) \<Rightarrow>
                      tthrow (InternalError ''NYI public getters'')
                  | _ \<Rightarrow> tlift (astVarToSType H def None))))))"
  have k: "\<And>d. keeps J
             (case d of
               FunDef def \<Rightarrow>
                 tbind (tlift (astVarsToSTypes H (vReturnParameters def))) (\<lambda>retTs.
                   tlift (returnType expr retTs))
             | VarDecl def \<Rightarrow>
                 (case vType def of
                    Some (UserDefinedTypeName d) \<Rightarrow>
                      tthrow (InternalError ''NYI public getters'')
                  | _ \<Rightarrow> tlift (astVarToSType H def None)))"
    subgoal for d
      by (cases d) (auto intro!: keeps_intros split: option.split TypeName.split)
    done
  have "keeps J m"
    unfolding m_def Let_def
    by (intro keeps_intros k assms)
  moreover from c have "m st = Some (res, st')"
    unfolding m_def callFunctionSet_def .
  ultimately show "J st'" using J by (blast dest: keepsD)
qed

text \<open>
  The call of a function set: the default argument that its object holds, if any, is
  checked in front of the arguments.
\<close>

lemma keeps_tcArgs_default:
  assumes args: "\<And>a. a \<in> set exprArgs \<Longrightarrow> keeps J (rec a ctx)"
    and dflt: "\<And>st d x st'. J st \<Longrightarrow> fsDefaultArg st r = Some d \<Longrightarrow>
                 rec d ctx st = Some (x, st') \<Longrightarrow> J st'"
    and "frame J"
  shows "keeps J (\<lambda>st.
              (let args = (case fsDefaultArg st r of
                             Some defaultArg \<Rightarrow> defaultArg # exprArgs
                           | None \<Rightarrow> exprArgs) in
               tbind (tcArgs rec args ctx) (\<lambda>argTs.
                 callFunctionSet H expr exprArgs r args argTs)) st)"
proof (rule keepsI)
  fix st res st'
  assume J: "J st"
    and c: "(let args = (case fsDefaultArg st r of
                             Some defaultArg \<Rightarrow> defaultArg # exprArgs
                           | None \<Rightarrow> exprArgs) in
               tbind (tcArgs rec args ctx) (\<lambda>argTs.
                 callFunctionSet H expr exprArgs r args argTs)) st = Some (res, st')"
  define args where "args = (case fsDefaultArg st r of
                             Some defaultArg \<Rightarrow> defaultArg # exprArgs
                           | None \<Rightarrow> exprArgs)"
  from c have c': "tbind (tcArgs rec args ctx) (\<lambda>argTs.
                 callFunctionSet H expr exprArgs r args argTs) st = Some (res, st')"
    unfolding args_def Let_def .
  have rest: "keeps J (tbind (tcArgs rec exprArgs ctx) (\<lambda>argTs.
                 callFunctionSet H expr exprArgs r exprArgs argTs))"
    using assms(1,3) by (intro keeps_tbind keeps_tcArgs keeps_callFunctionSet)
  show "J st'"
  proof (cases "fsDefaultArg st r")
    case None
    then have "args = exprArgs" by (simp add: args_def)
    with c' rest J show ?thesis by (auto dest: keepsD)
  next
    case (Some d)
    then have a: "args = d # exprArgs" by (simp add: args_def)
    from c' show ?thesis
      unfolding a tcArgs.simps
    proof (cases rule: tbind_SomeE)
      case (error e)
      then show ?thesis
      proof (cases rule: tbind_SomeE)
        case (error e')
        with J Some dflt show ?thesis by blast
      next
        case (ok T s1)
        from J Some ok(1) have J1: "J s1" by (rule dflt)
        have "keeps J (tbind (tcArgs rec exprArgs ctx) (\<lambda>Ts. treturn (T # Ts)))"
          using assms(1) by (intro keeps_tbind keeps_tcArgs keeps_treturn)
        with J1 ok(2) show ?thesis by (blast dest: keepsD)
      qed
    next
      case (ok argTs s2)
      from ok(1) have "J s2"
      proof (cases rule: tbind_SomeE)
        case (ok T s1)
        from J Some ok(1) have J1: "J s1" by (rule dflt)
        have "keeps J (tbind (tcArgs rec exprArgs ctx) (\<lambda>Ts. treturn (T # Ts)))"
          using assms(1) by (intro keeps_tbind keeps_tcArgs keeps_treturn)
        with J1 ok(2) show ?thesis by (blast dest: keepsD)
      qed simp
      moreover have "keeps J (callFunctionSet H expr exprArgs r (d # exprArgs) argTs)"
        using assms(3) by (rule keeps_callFunctionSet)
      ultimately show ?thesis using ok(2) by (blast dest: keepsD)
    qed
  qed
qed

lemma keeps_tcFunctionCall:
  assumes "frame J" and "keeps J (rec callee ctx)"
    and "\<And>a. a \<in> set exprArgs \<Longrightarrow> keeps J (rec a ctx)"
    and "\<And>st r d x st'. J st \<Longrightarrow> fsDefaultArg st r = Some d \<Longrightarrow>
                 rec d ctx st = Some (x, st') \<Longrightarrow> J st'"
  shows "keeps J (tcFunctionCall H rec expr callee exprArgs ctx)"
proof -
  have cont: "\<And>calleeT. keeps J
       (case calleeT of
         SBuiltinTypeNameType type \<Rightarrow>
           tbind (tcArgs rec exprArgs ctx) (\<lambda>argTs.
             if length exprArgs \<noteq> 1 then tthrow (SExprCountMismatch expr)
             else treturn type)
       | SUserDefinedTypeNameType definition \<Rightarrow>
           tbind (tcArgs rec exprArgs ctx) (\<lambda>argTs.
             case definition of
               StructDef d \<Rightarrow>
                 treturn (SPointer
                   (SUserDefinedType (getUserDefinedTypeFQName H definition) (Some definition))
                   (Some Memory))
             | _ \<Rightarrow>
                 if length argTs \<noteq> 1 then tthrow (SExprCountMismatch expr)
                 else treturn (SPointer
                   (SUserDefinedType (getUserDefinedTypeFQName H definition) (Some definition))
                   (case definition of
                      ContractDef d \<Rightarrow> Some Storage
                    | _ \<Rightarrow> locationOf (argTs ! 0))))
       | SFunctionSetType r \<Rightarrow>
           (\<lambda>st.
              (let args = (case fsDefaultArg st r of
                             Some defaultArg \<Rightarrow> defaultArg # exprArgs
                           | None \<Rightarrow> exprArgs) in
               tbind (tcArgs rec args ctx) (\<lambda>argTs.
                 callFunctionSet H expr exprArgs r args argTs)) st)
       | SFunctionType parameters returns vis mut \<Rightarrow>
           tbind (tcArgs rec exprArgs ctx) (\<lambda>argTs.
             if \<not> matchParameters H exprArgs argTs parameters
             then tthrow (SArgumentMismatch expr)
             else tlift (returnType expr returns))
       | _ \<Rightarrow> tthrow (SWrongType callee calleeT))"
    subgoal for calleeT
    proof (cases calleeT)
      case (SFunctionSetType r)
      show ?thesis
        unfolding SFunctionSetType stype.case
        by (rule keeps_tcArgs_default[where rec = rec and ctx = ctx and J = J and r = r,
              OF assms(3) assms(4) assms(1)])
    qed (use assms(1,3) in \<open>auto intro!: keeps_intros keeps_tcArgs split: udef.split\<close>)
    done
  show ?thesis
    unfolding tcFunctionCall_def
    by (intro keeps_tbind assms(2) cont)
qed

text \<open>An invariant that does not read the function-set objects.\<close>

lemma keeps_tcDispatch:
  assumes "frame J"
    and alloc: "\<And>st g h k. J st \<Longrightarrow> J (st\<lparr>fsDefinitions := g, fsDefaultArg := h, fsNext := k\<rparr>)"
    and rec: "\<And>c ctx'. keeps J (rec c ctx')"
  shows "keeps J (tcDispatch H rec expr ctx)"
proof (cases expr)
  case (SMemberAccess i base member)
  have "keeps J (tcMemberAccess H rec expr base member ctx)"
    using assms(1) alloc rec[of base ctx]
    by (intro keeps_tcMemberAccess[where J' = J]) (blast dest: keepsD)+
  then show ?thesis by (simp add: SMemberAccess tcDispatch_def)
next
  case (SLet i lhs rhs body)
  have "keeps J (tcLet rec expr l ctx)" for l
    using rec[of "l_rhs l" ctx] rec[of "l_in l" "ctx @ [LetScope l]"]
    by (intro keeps_tcLet[where J' = J]) (blast dest: keepsD)+
  then show ?thesis by (simp add: SLet tcDispatch_def)
next
  case (SFunctionCall i callee args)
  have "keeps J (tcFunctionCall H rec expr callee args ctx)"
    using assms(1) rec
    by (intro keeps_tcFunctionCall) (blast dest: keepsD)+
  then show ?thesis by (simp add: SFunctionCall tcDispatch_def)
qed (use assms(1) rec in \<open>auto simp: tcDispatch_def
       intro!: keeps_intros keeps_tcId keeps_tcUnary keeps_tcBinary keeps_tcConditional
               keeps_tcIndexAccess
       split: stype.split option.split\<close>)

lemma keeps_cache:
  "(\<And>st. J st \<Longrightarrow> J (st\<lparr>typeMap := (typeMap st)(expr \<mapsto> type)\<rparr>)) \<Longrightarrow> keeps J (cache expr type)"
  by (rule keepsI) (auto simp: cache_def)

lemma keeps_tcStep:
  assumes "frame J"
    and "\<And>st g h k. J st \<Longrightarrow> J (st\<lparr>fsDefinitions := g, fsDefaultArg := h, fsNext := k\<rparr>)"
    and "\<And>c ctx'. keeps J (rec c ctx')"
    and "\<And>st e t. J st \<Longrightarrow> J (st\<lparr>typeMap := (typeMap st)(e \<mapsto> t)\<rparr>)"
  shows "keeps J (tcStep H rec expr ctx)"
proof (rule keepsI)
  fix st r st'
  assume J: "J st" and s: "tcStep H rec expr ctx st = Some (r, st')"
  show "J st'"
  proof (cases "typeMap st expr")
    case (Some t)
    with s J show ?thesis by (simp add: tcStep_def)
  next
    case None
    have "keeps J (tbind (tcDispatch H rec expr ctx) (\<lambda>type. cache expr type))"
      using assms by (intro keeps_tbind keeps_tcDispatch keeps_cache)
    with None s J show ?thesis by (auto simp: tcStep_def dest: keepsD)
  qed
qed

lemma keeps_tc:
  assumes "frame J"
    and "\<And>st g h k. J st \<Longrightarrow> J (st\<lparr>fsDefinitions := g, fsDefaultArg := h, fsNext := k\<rparr>)"
    and "\<And>st e t. J st \<Longrightarrow> J (st\<lparr>typeMap := (typeMap st)(e \<mapsto> t)\<rparr>)"
  shows "keeps J (tc n H expr ctx)"
proof (induction n arbitrary: expr ctx)
  case 0
  show ?case by (simp add: keeps_def)
next
  case (Suc n)
  show ?case
    unfolding tc.simps using assms(1,2) Suc assms(3) by (rule keeps_tcStep)
qed

lemma tc_cache_grows:
  assumes "tc n H expr ctx st = Some (r, st')"
  shows "dom (typeMap st) \<subseteq> dom (typeMap st')"
proof -
  let ?J = "\<lambda>s. dom (typeMap st) \<subseteq> dom (typeMap s)"
  have "frame ?J" by (simp add: frame_def)
  moreover have "\<And>s g h k. ?J s \<Longrightarrow> ?J (s\<lparr>fsDefinitions := g, fsDefaultArg := h, fsNext := k\<rparr>)"
    by simp
  moreover have "\<And>s e t. ?J s \<Longrightarrow> ?J (s\<lparr>typeMap := (typeMap s)(e \<mapsto> t)\<rparr>)" by auto
  ultimately have "keeps ?J (tc n H expr ctx)" by (rule keeps_tc)
  from keepsD[OF this _ assms] show ?thesis by simp
qed

lemma tc_success_cached:
  assumes "tc n H expr ctx st = Some (Inr type, st')"
  shows "typeMap st' expr = Some type"
proof (cases n)
  case 0
  with assms show ?thesis by simp
next
  case (Suc m)
  show ?thesis
  proof (cases "typeMap st expr")
    case (Some t)
    with assms Suc show ?thesis by (simp add: tcStep_def)
  next
    case None
    with assms Suc have
      "tbind (tcDispatch H (tc m H) expr ctx) (\<lambda>type. cache expr type) st = Some (Inr type, st')"
      by (simp add: tcStep_def)
    then show ?thesis
      by (cases rule: tbind_SomeE) (auto simp: cache_def)
  qed
qed


section \<open>More fuel does not change an answer\<close>

lemma answersOfI: "(\<And>st x. m st = Some x \<Longrightarrow> m' st = Some x) \<Longrightarrow> answersOf m m'"
  unfolding answersOf_def by blast

lemma answersOfD: "answersOf m m' \<Longrightarrow> m st = Some x \<Longrightarrow> m' st = Some x"
  unfolding answersOf_def by blast

lemma answersOf_refl: "answersOf m m"
  by (simp add: answersOf_def)

lemma answersOf_tbind:
  assumes "answersOf m m'" and "\<And>x. answersOf (f x) (f' x)"
  shows "answersOf (tbind m f) (tbind m' f')"
proof (rule answersOfI)
  fix st x
  assume "tbind m f st = Some x"
  then obtain r s where x: "x = (r, s)" and b: "tbind m f st = Some (r, s)" by (cases x) auto
  from b show "tbind m' f' st = Some x"
  proof (cases rule: tbind_SomeE)
    case (error e)
    from answersOfD[OF assms(1) error(1)] error(2) x show ?thesis by (simp add: tbind_def)
  next
    case (ok y s1)
    from answersOfD[OF assms(1) ok(1)] answersOfD[OF assms(2) ok(2)] x
    show ?thesis by (simp add: tbind_def)
  qed
qed

lemma answersOf_if:
  "(c \<Longrightarrow> answersOf a a') \<Longrightarrow> (\<not> c \<Longrightarrow> answersOf b b') \<Longrightarrow>
   answersOf (if c then a else b) (if c then a' else b')"
  by simp

lemmas answersOf_intros = answersOf_tbind answersOf_if answersOf_refl

lemma answersOf_tcIdVariable:
  assumes "\<And>c. answersOf (rec c ctx) (rec' c ctx)"
  shows "answersOf (tcIdVariable H rec expr name ctx) (tcIdVariable H rec' expr name ctx)"
  unfolding tcIdVariable_def
  by (auto intro!: answersOf_intros assms split: option.split VarDefSite.split)

lemma answersOf_tcId:
  assumes "\<And>c. answersOf (rec c ctx) (rec' c ctx)"
  shows "answersOf (tcId H rec expr name ctx) (tcId H rec' expr name ctx)"
  unfolding tcId_def Let_def
  by (auto intro!: answersOf_intros answersOf_tcIdVariable assms split: option.split)

lemma answersOf_tcUnary:
  assumes "\<And>c. answersOf (rec c ctx) (rec' c ctx)"
  shows "answersOf (tcUnary rec expr op subexp ctx) (tcUnary rec' expr op subexp ctx)"
  unfolding tcUnary_def
  by (intro answersOf_intros assms)

lemma answersOf_tcBinary:
  assumes "\<And>c. answersOf (rec c ctx) (rec' c ctx)"
  shows "answersOf (tcBinary H rec expr left op right ctx) (tcBinary H rec' expr left op right ctx)"
  unfolding tcBinary_def
  by (intro answersOf_intros assms)

lemma answersOf_tcConditional:
  assumes "\<And>c. answersOf (rec c ctx) (rec' c ctx)"
  shows "answersOf (tcConditional H rec expr c a b ctx) (tcConditional H rec' expr c a b ctx)"
  unfolding tcConditional_def
  by (intro answersOf_intros assms)

lemma answersOf_tcIndexAccess:
  assumes "\<And>c. answersOf (rec c ctx) (rec' c ctx)"
  shows "answersOf (tcIndexAccess H rec expr base index ctx)
                   (tcIndexAccess H rec' expr base index ctx)"
  unfolding tcIndexAccess_def
  by (intro answersOf_intros assms)

lemma answersOf_tcMemberAccess:
  assumes "\<And>c. answersOf (rec c ctx) (rec' c ctx)"
  shows "answersOf (tcMemberAccess H rec expr base member ctx)
                   (tcMemberAccess H rec' expr base member ctx)"
  unfolding tcMemberAccess_def
  by (intro answersOf_intros assms)

lemma answersOf_tcLet:
  assumes "\<And>c ctx'. answersOf (rec c ctx') (rec' c ctx')"
  shows "answersOf (tcLet rec expr l ctx) (tcLet rec' expr l ctx)"
  unfolding tcLet_def
  by (intro answersOf_intros assms)

lemma answersOf_tcArgs:
  assumes "\<And>c. answersOf (rec c ctx) (rec' c ctx)"
  shows "answersOf (tcArgs rec args ctx) (tcArgs rec' args ctx)"
  by (induction args) (auto intro!: answersOf_intros assms)

lemma answersOf_tcFunctionCall:
  assumes rec: "\<And>c. answersOf (rec c ctx) (rec' c ctx)"
  shows "answersOf (tcFunctionCall H rec expr callee exprArgs ctx)
                   (tcFunctionCall H rec' expr callee exprArgs ctx)"
proof -
  have args: "answersOf (tcArgs rec as ctx) (tcArgs rec' as ctx)" for as
    by (rule answersOf_tcArgs) (rule rec)
  have fs: "answersOf
      (\<lambda>st. (let args = (case fsDefaultArg st r of
                             Some defaultArg \<Rightarrow> defaultArg # exprArgs
                           | None \<Rightarrow> exprArgs) in
               tbind (tcArgs rec args ctx) (\<lambda>argTs.
                 callFunctionSet H expr exprArgs r args argTs)) st)
      (\<lambda>st. (let args = (case fsDefaultArg st r of
                             Some defaultArg \<Rightarrow> defaultArg # exprArgs
                           | None \<Rightarrow> exprArgs) in
               tbind (tcArgs rec' args ctx) (\<lambda>argTs.
                 callFunctionSet H expr exprArgs r args argTs)) st)" for r
  proof (rule answersOfI)
    fix st :: tc_state and x :: "(error + stype) \<times> tc_state"
    define as where "as = (case fsDefaultArg st r of
                             Some defaultArg \<Rightarrow> defaultArg # exprArgs
                           | None \<Rightarrow> exprArgs)"
    assume "(let args = (case fsDefaultArg st r of
                             Some defaultArg \<Rightarrow> defaultArg # exprArgs
                           | None \<Rightarrow> exprArgs) in
               tbind (tcArgs rec args ctx) (\<lambda>argTs.
                 callFunctionSet H expr exprArgs r args argTs)) st = Some x"
    then have "tbind (tcArgs rec as ctx) (\<lambda>argTs.
                 callFunctionSet H expr exprArgs r as argTs) st = Some x"
      unfolding as_def Let_def .
    moreover have "answersOf
        (tbind (tcArgs rec as ctx) (\<lambda>argTs. callFunctionSet H expr exprArgs r as argTs))
        (tbind (tcArgs rec' as ctx) (\<lambda>argTs. callFunctionSet H expr exprArgs r as argTs))"
      by (intro answersOf_intros args)
    ultimately have "tbind (tcArgs rec' as ctx) (\<lambda>argTs.
                 callFunctionSet H expr exprArgs r as argTs) st = Some x"
      by (blast dest: answersOfD)
    then show "(let args = (case fsDefaultArg st r of
                             Some defaultArg \<Rightarrow> defaultArg # exprArgs
                           | None \<Rightarrow> exprArgs) in
               tbind (tcArgs rec' args ctx) (\<lambda>argTs.
                 callFunctionSet H expr exprArgs r args argTs)) st = Some x"
      unfolding as_def Let_def .
  qed
  show ?thesis
    unfolding tcFunctionCall_def
  proof (intro answersOf_tbind rec)
    fix calleeT
    show "answersOf
       (case calleeT of
         SBuiltinTypeNameType type \<Rightarrow>
           tbind (tcArgs rec exprArgs ctx) (\<lambda>argTs.
             if length exprArgs \<noteq> 1 then tthrow (SExprCountMismatch expr)
             else treturn type)
       | SUserDefinedTypeNameType definition \<Rightarrow>
           tbind (tcArgs rec exprArgs ctx) (\<lambda>argTs.
             case definition of
               StructDef d \<Rightarrow>
                 treturn (SPointer
                   (SUserDefinedType (getUserDefinedTypeFQName H definition) (Some definition))
                   (Some Memory))
             | _ \<Rightarrow>
                 if length argTs \<noteq> 1 then tthrow (SExprCountMismatch expr)
                 else treturn (SPointer
                   (SUserDefinedType (getUserDefinedTypeFQName H definition) (Some definition))
                   (case definition of
                      ContractDef d \<Rightarrow> Some Storage
                    | _ \<Rightarrow> locationOf (argTs ! 0))))
       | SFunctionSetType r \<Rightarrow>
           (\<lambda>st.
              (let args = (case fsDefaultArg st r of
                             Some defaultArg \<Rightarrow> defaultArg # exprArgs
                           | None \<Rightarrow> exprArgs) in
               tbind (tcArgs rec args ctx) (\<lambda>argTs.
                 callFunctionSet H expr exprArgs r args argTs)) st)
       | SFunctionType parameters returns vis mut \<Rightarrow>
           tbind (tcArgs rec exprArgs ctx) (\<lambda>argTs.
             if \<not> matchParameters H exprArgs argTs parameters
             then tthrow (SArgumentMismatch expr)
             else tlift (returnType expr returns))
       | _ \<Rightarrow> tthrow (SWrongType callee calleeT))
       (case calleeT of
         SBuiltinTypeNameType type \<Rightarrow>
           tbind (tcArgs rec' exprArgs ctx) (\<lambda>argTs.
             if length exprArgs \<noteq> 1 then tthrow (SExprCountMismatch expr)
             else treturn type)
       | SUserDefinedTypeNameType definition \<Rightarrow>
           tbind (tcArgs rec' exprArgs ctx) (\<lambda>argTs.
             case definition of
               StructDef d \<Rightarrow>
                 treturn (SPointer
                   (SUserDefinedType (getUserDefinedTypeFQName H definition) (Some definition))
                   (Some Memory))
             | _ \<Rightarrow>
                 if length argTs \<noteq> 1 then tthrow (SExprCountMismatch expr)
                 else treturn (SPointer
                   (SUserDefinedType (getUserDefinedTypeFQName H definition) (Some definition))
                   (case definition of
                      ContractDef d \<Rightarrow> Some Storage
                    | _ \<Rightarrow> locationOf (argTs ! 0))))
       | SFunctionSetType r \<Rightarrow>
           (\<lambda>st.
              (let args = (case fsDefaultArg st r of
                             Some defaultArg \<Rightarrow> defaultArg # exprArgs
                           | None \<Rightarrow> exprArgs) in
               tbind (tcArgs rec' args ctx) (\<lambda>argTs.
                 callFunctionSet H expr exprArgs r args argTs)) st)
       | SFunctionType parameters returns vis mut \<Rightarrow>
           tbind (tcArgs rec' exprArgs ctx) (\<lambda>argTs.
             if \<not> matchParameters H exprArgs argTs parameters
             then tthrow (SArgumentMismatch expr)
             else tlift (returnType expr returns))
       | _ \<Rightarrow> tthrow (SWrongType callee calleeT))"
    proof (cases calleeT)
      case (SFunctionSetType r)
      show ?thesis unfolding SFunctionSetType stype.case by (rule fs)
    qed (auto intro!: answersOf_intros args)
  qed
qed

lemma answersOf_tcDispatch:
  assumes "\<And>c ctx'. answersOf (rec c ctx') (rec' c ctx')"
  shows "answersOf (tcDispatch H rec expr ctx) (tcDispatch H rec' expr ctx)"
  unfolding tcDispatch_def
  by (cases expr)
     (auto intro!: answersOf_refl answersOf_tcId answersOf_tcUnary answersOf_tcBinary
        answersOf_tcConditional answersOf_tcIndexAccess answersOf_tcMemberAccess answersOf_tcLet
        answersOf_tcFunctionCall assms)

lemma answersOf_tcStep:
  assumes "\<And>c ctx'. answersOf (rec c ctx') (rec' c ctx')"
  shows "answersOf (tcStep H rec expr ctx) (tcStep H rec' expr ctx)"
proof (rule answersOfI)
  fix st x
  assume s: "tcStep H rec expr ctx st = Some x"
  show "tcStep H rec' expr ctx st = Some x"
  proof (cases "typeMap st expr")
    case (Some t)
    with s show ?thesis by (simp add: tcStep_def)
  next
    case None
    have "answersOf (tbind (tcDispatch H rec expr ctx) (\<lambda>type. cache expr type))
                    (tbind (tcDispatch H rec' expr ctx) (\<lambda>type. cache expr type))"
      by (intro answersOf_intros answersOf_tcDispatch assms)
    with None s show ?thesis by (auto simp: tcStep_def dest: answersOfD)
  qed
qed

lemma tc_more_fuel_step: "answersOf (tc n H expr ctx) (tc (Suc n) H expr ctx)"
proof (induction n arbitrary: expr ctx)
  case 0
  show ?case by (simp add: answersOf_def)
next
  case (Suc n)
  show ?case
    using answersOf_tcStep[where rec = "tc n H" and rec' = "tc (Suc n) H", OF Suc]
    by simp
qed

lemma tc_more_fuel:
  assumes "tc n H expr ctx st = Some x"
  shows "tc (n + k) H expr ctx st = Some x"
proof (induction k)
  case 0
  with assms show ?case by simp
next
  case (Suc k)
  from answersOfD[OF tc_more_fuel_step Suc] show ?case by simp
qed

lemma tc_fuel_independent:
  assumes "tc n H expr ctx st = Some x" and "tc m H expr ctx st = Some y"
  shows "x = y"
proof -
  from tc_more_fuel[OF assms(1), of m] tc_more_fuel[OF assms(2), of n]
  show ?thesis by (simp add: add.commute)
qed

section \<open>The cache\<close>

text \<open>
  C3. Cache stability. When \<open>tc\<close> has returned a type for \<open>e\<close>, the type is in the cache
  under \<open>e\<close>, and a second run on the state the first one left returns the same type
  and leaves the state as it is; it does so even with fuel for a single step, that
  is, without a recursive call. A node that is in the cache is answered from the
  cache in the same way. Whatever a run returns, a type or a diagnostic, the nodes
  that were in the cache before are in the cache after. The answer is determined by
  the node, the context and the state: two runs from the same state that both return
  give the same result and the same final state, whatever their bounds on the depth.
\<close>

theorem cache_stability:
  "(tc n H e ctx st = Some (Inr T, st') \<longrightarrow>
      typeMap st' e = Some T \<and> tc (Suc m) H e ctx st' = Some (Inr T, st'))
   \<and> (typeMap st e = Some T \<longrightarrow> tc (Suc m) H e ctx st = Some (Inr T, st))
   \<and> (tc n H e ctx st = Some (r, stR) \<longrightarrow> dom (typeMap st) \<subseteq> dom (typeMap stR))
   \<and> (tc n H e ctx st = Some x \<and> tc k H e ctx st = Some y \<longrightarrow> x = y)"
proof (intro conjI impI)
  assume run: "tc n H e ctx st = Some (Inr T, st')"
  then show "typeMap st' e = Some T" by (rule tc_success_cached)
  then show "tc (Suc m) H e ctx st' = Some (Inr T, st')" by (rule tc_cached)
next
  assume "typeMap st e = Some T"
  then show "tc (Suc m) H e ctx st = Some (Inr T, st)" by (rule tc_cached)
next
  assume "tc n H e ctx st = Some (r, stR)"
  then show "dom (typeMap st) \<subseteq> dom (typeMap stR)" by (rule tc_cache_grows)
next
  assume "tc n H e ctx st = Some x \<and> tc k H e ctx st = Some y"
  then show "x = y" by (blast intro: tc_fuel_independent)
qed

theorem cache_stability_witness:
  "map_option fst
     (tc 2 sampleHost (SFunctionCall 0 (SId 1 ''add'') [SNumber 2 5, SNumber 3 5])
        sampleCtx emptyState) = Some (Inr (SIntType 64 False))
   \<and> typeMap
       (snd (the (tc 2 sampleHost (SFunctionCall 0 (SId 1 ''add'') [SNumber 2 5, SNumber 3 5])
                    sampleCtx emptyState)))
       (SFunctionCall 0 (SId 1 ''add'') [SNumber 2 5, SNumber 3 5]) = Some (SIntType 64 False)
   \<and> tc (Suc 0) sampleHost (SFunctionCall 0 (SId 1 ''add'') [SNumber 2 5, SNumber 3 5]) sampleCtx
       (snd (the (tc 2 sampleHost (SFunctionCall 0 (SId 1 ''add'') [SNumber 2 5, SNumber 3 5])
                    sampleCtx emptyState)))
       = Some (Inr (SIntType 64 False),
               snd (the (tc 2 sampleHost (SFunctionCall 0 (SId 1 ''add'') [SNumber 2 5, SNumber 3 5])
                           sampleCtx emptyState)))
   \<and> dom (typeMap emptyState)
       \<subseteq> dom (typeMap
               (snd (the (tc 2 sampleHost
                            (SFunctionCall 0 (SId 1 ''add'') [SNumber 2 5, SNumber 3 5])
                            sampleCtx emptyState))))
   \<and> map_option fst
       (tc 5 sampleHost (SFunctionCall 0 (SId 1 ''add'') [SNumber 2 5, SNumber 3 5])
          sampleCtx emptyState) = Some (Inr (SIntType 64 False))
   \<and> the (tc 2 sampleHost (SFunctionCall 0 (SId 1 ''add'') [SNumber 2 5, SNumber 3 5])
             sampleCtx emptyState)
     = the (tc 5 sampleHost (SFunctionCall 0 (SId 1 ''add'') [SNumber 2 5, SNumber 3 5])
              sampleCtx emptyState)"
proof -
  let ?e = "SFunctionCall 0 (SId 1 ''add'') [SNumber 2 5, SNumber 3 5]"
  let ?st = "snd (the (tc 2 sampleHost ?e sampleCtx emptyState))"
  have c: "map_option fst (tc 2 sampleHost ?e sampleCtx emptyState)
             = Some (Inr (SIntType 64 False))" by code_simp
  from Some_fst_snd[OF c]
  have run: "tc 2 sampleHost ?e sampleCtx emptyState = Some (Inr (SIntType 64 False), ?st)" .
  note inst = cache_stability[where n = 2 and H = sampleHost and e = ?e and ctx = sampleCtx
      and st = emptyState and T = "SIntType 64 False" and st' = ?st and m = 0
      and r = "Inr (SIntType 64 False)" and stR = ?st and k = 5
      and x = "the (tc 2 sampleHost ?e sampleCtx emptyState)"
      and y = "the (tc 5 sampleHost ?e sampleCtx emptyState)"]
  have c5: "map_option fst (tc 5 sampleHost ?e sampleCtx emptyState)
              = Some (Inr (SIntType 64 False))" by code_simp
  from c have s2: "tc 2 sampleHost ?e sampleCtx emptyState
                     = Some (the (tc 2 sampleHost ?e sampleCtx emptyState))" by auto
  from c5 have s5: "tc 5 sampleHost ?e sampleCtx emptyState
                     = Some (the (tc 5 sampleHost ?e sampleCtx emptyState))" by auto
  from inst s2 s5 have f: "the (tc 2 sampleHost ?e sampleCtx emptyState)
                             = the (tc 5 sampleHost ?e sampleCtx emptyState)" by blast
  from inst run have a: "typeMap ?st ?e = Some (SIntType 64 False)" by blast
  from inst run have b: "tc (Suc 0) sampleHost ?e sampleCtx ?st
                          = Some (Inr (SIntType 64 False), ?st)" by blast
  from inst run have d: "dom (typeMap emptyState) \<subseteq> dom (typeMap ?st)" by blast
  show ?thesis by (intro conjI c a b d c5 f)
qed

section \<open>What a check that ends in a diagnostic leaves in the cache\<close>






















end
